theory Spec2Isabelle
  imports Complex_Main
begin

section \<open>Values and documents\<close>

text \<open>
  The server (\<^verbatim>\<open>server.js\<close>) keeps three Mongoose collections, \<^verbatim>\<open>User\<close>,
  \<^verbatim>\<open>Product\<close> and \<^verbatim>\<open>Order\<close>, and one process-wide array \<^verbatim>\<open>sseClients\<close>.
  A collection is the list of its documents in insertion order. An \<^verbatim>\<open>ObjectId\<close> is a
  natural number; a JavaScript \<^verbatim>\<open>Number\<close> that the handlers only store and copy is a
  real. A request field that may be absent (\<^verbatim>\<open>undefined\<close>) is an \<open>option\<close>.
\<close>

type_synonym objectId = nat
type_synonym number = real

text \<open>
  A route parameter \<^verbatim>\<open>req.params.id\<close> is a string. Mongoose casts it to an ObjectId
  when it builds the query: \<open>ObjectIdOf i\<close> is a string that denotes the ObjectId \<open>i\<close>,
  \<open>Malformed raw\<close> is a string \<open>raw\<close> that is no well-formed ObjectId, on which the
  query rejects with a \<^verbatim>\<open>CastError\<close>.
\<close>

datatype param_id = ObjectIdOf objectId | Malformed string

text \<open>The message of that \<^verbatim>\<open>CastError\<close>, shortened.\<close>

definition cast_error :: "string \<Rightarrow> string" where
  "cast_error raw = ''Cast to ObjectId failed for value '' @ raw"

text \<open>JavaScript truthiness of an optional string: \<^verbatim>\<open>undefined\<close> and \<^verbatim>\<open>''\<close> are falsy.\<close>

fun truthy :: "string option \<Rightarrow> bool" where
  "truthy None = False"
| "truthy (Some s) = (s \<noteq> [])"

text \<open>\<^verbatim>\<open>x || d\<close> on an optional string.\<close>

fun or_default :: "string option \<Rightarrow> string \<Rightarrow> string" where
  "or_default None d = d"
| "or_default (Some s) d = (if s = [] then d else s)"

record cart_entry =
  cart_product :: objectId
  cart_quantity :: number

record saved_address =
  addr_label :: string
  addr_line1 :: string
  addr_line2 :: string
  addr_city :: string
  addr_pincode :: string
  addr_isDefault :: bool

record user_doc =
  user_id :: objectId
  user_name :: string
  user_email :: string
  user_passwordHash :: string
  user_phone :: "string option"
  user_role :: string
  user_cart :: "cart_entry list"
  user_addresses :: "saved_address list"
  user_createdAt :: nat

record product_doc =
  product_id :: objectId
  product_name :: string
  product_description :: "string option"
  product_price :: number
  product_category :: "string option"
  product_image :: "string option"
  product_unit :: string
  product_createdAt :: nat

record item =
  item_productId :: objectId
  item_name :: string
  item_price :: number
  item_quantity :: number

record address =
  da_name :: "string option"
  da_phone :: "string option"
  da_line1 :: "string option"
  da_line2 :: "string option"
  da_city :: "string option"
  da_pincode :: "string option"
  da_lat :: "number option"
  da_lng :: "number option"
  da_notes :: "string option"

record order_doc =
  order_id :: objectId
  order_userId :: objectId
  order_items :: "item list"
  order_total :: "number option"
  order_deliveryAddress :: "address option"
  order_status :: string
  order_createdAt :: nat

section \<open>Server-sent event subscribers\<close>

text \<open>
  An entry of \<^verbatim>\<open>sseClients\<close> is \<^verbatim>\<open>{ id, res }\<close>. The response stream \<^verbatim>\<open>res\<close> is
  modelled by what has been written to it so far and by whether a write on it throws.
\<close>

record sse_res =
  res_written :: "string list"
  res_throws :: bool

record sse_client =
  client_id :: number
  client_res :: sse_res

text \<open>\<^verbatim>\<open>res.write(chunk)\<close>: \<open>None\<close> when the call throws.\<close>

definition res_write :: "sse_res \<Rightarrow> string \<Rightarrow> sse_res option" where
  "res_write r chunk =
     (if res_throws r then None else Some (r\<lparr>res_written := res_written r @ [chunk]\<rparr>))"

section \<open>The state of the server\<close>

record store =
  User :: "user_doc list"
  Product :: "product_doc list"
  Order :: "order_doc list"
  sseClients :: "sse_client list"
  next_oid :: objectId

section \<open>Responses\<close>

record user_view =
  view_id :: objectId
  view_name :: string
  view_email :: string
  view_role :: string

record populated_user =
  pop_id :: objectId
  pop_name :: string
  pop_email :: string
  pop_phone :: "string option"

datatype body =
    Err string
  | Success
  | SuccessOrder objectId
  | SuccessEmail string
  | TokenUser string user_view
  | ProductJson product_doc
  | OrderJson order_doc
  | OrdersJson "(order_doc \<times> populated_user option) list"

type_synonym response = "nat \<times> body"

section \<open>Library functions the handlers call\<close>

text \<open>
  \<^verbatim>\<open>jsonwebtoken\<close>, \<^verbatim>\<open>bcryptjs\<close>, \<^verbatim>\<open>JSON.stringify\<close>, \<^verbatim>\<open>Number\<close> and the Cloudinary
  uploader are not part of the repository; the handlers take them as parameters.
  \<open>jwt_verify\<close> is \<open>None\<close> when \<^verbatim>\<open>jwt.verify\<close> throws (malformed, wrongly signed or
  expired token), \<open>toNumber\<close> is \<open>None\<close> when \<^verbatim>\<open>Number(s)\<close> is \<^verbatim>\<open>NaN\<close>, and
  \<open>cloudinary_upload\<close> is \<open>Inl msg\<close> when the upload rejects, else \<open>Inr\<close> of the
  result's \<^verbatim>\<open>secure_url\<close>.
\<close>

record jwt_payload =
  jwt_id :: objectId
  jwt_role :: string
  jwt_name :: string

record order_summary =
  sum_id :: objectId
  sum_userName :: string
  sum_deliveryAddress :: "address option"
  sum_items :: "item list"
  sum_total :: "number option"
  sum_createdAt :: nat
  sum_status :: string

record libs =
  jwt_sign :: "jwt_payload \<Rightarrow> string"
  jwt_verify :: "string \<Rightarrow> jwt_payload option"
  bcrypt_hash :: "string \<Rightarrow> nat \<Rightarrow> string"
  bcrypt_compare :: "string \<Rightarrow> string \<Rightarrow> bool"
  JSON_stringify :: "order_summary \<Rightarrow> string"
  toNumber :: "string \<Rightarrow> number option"
  cloudinary_upload :: "string \<Rightarrow> string + string option"

section \<open>Auth helpers\<close>

text \<open>\<^verbatim>\<open>s.split(c)\<close> for a one-character separator.\<close>

fun split_on :: "char \<Rightarrow> string \<Rightarrow> string list" where
  "split_on c [] = [[]]"
| "split_on c (x # xs) =
     (if x = c then [] # split_on c xs
      else (case split_on c xs of
              [] \<Rightarrow> [[x]]
            | w # ws \<Rightarrow> (x # w) # ws))"

text \<open>\<^verbatim>\<open>xs[i]\<close>, \<open>None\<close> for \<^verbatim>\<open>undefined\<close>.\<close>

definition at_index :: "'a list \<Rightarrow> nat \<Rightarrow> 'a option" where
  "at_index xs i = (if i < length xs then Some (xs ! i) else None)"

text \<open>\<^verbatim>\<open>auth.split(' ')[1]\<close>\<close>

definition bearer_token :: "string \<Rightarrow> string option" where
  "bearer_token a = at_index (split_on CHR '' '' a) 1"

text \<open>
  \<^verbatim>\<open>authMiddleware\<close>: \<open>Inl\<close> is the response it sends itself, \<open>Inr\<close> is the decoded
  payload it stores in \<^verbatim>\<open>req.user\<close> before calling \<^verbatim>\<open>next()\<close>. \<^verbatim>\<open>jwt.verify\<close> throws
  on an \<^verbatim>\<open>undefined\<close> token.
\<close>

definition authMiddleware :: "libs \<Rightarrow> string option \<Rightarrow> response + jwt_payload" where
  "authMiddleware L auth =
     (case auth of
        None \<Rightarrow> Inl (401, Err ''No token'')
      | Some a \<Rightarrow>
          if a = [] then Inl (401, Err ''No token'')
          else (case bearer_token a of
                  None \<Rightarrow> Inl (401, Err ''Invalid token'')
                | Some token \<Rightarrow>
                    (case jwt_verify L token of
                       None \<Rightarrow> Inl (401, Err ''Invalid token'')
                     | Some decoded \<Rightarrow> Inr decoded)))"

definition adminMiddleware :: "jwt_payload option \<Rightarrow> response + unit" where
  "adminMiddleware req_user =
     (case req_user of
        None \<Rightarrow> Inl (403, Err ''Admin only'')
      | Some u \<Rightarrow>
          if jwt_role u \<noteq> ''admin'' then Inl (403, Err ''Admin only'') else Inr ())"

text \<open>
  A route registered as \<^verbatim>\<open>app.X(path, authMiddleware, handler)\<close> and one registered as
  \<^verbatim>\<open>app.X(path, authMiddleware, adminMiddleware, ..., handler)\<close>: a middleware that
  responds ends the chain, and the state is as it was.
\<close>

definition auth_route ::
  "libs \<Rightarrow> string option \<Rightarrow> (jwt_payload \<Rightarrow> store \<Rightarrow> response \<times> store) \<Rightarrow> store \<Rightarrow> response \<times> store" where
  "auth_route L auth handler s =
     (case authMiddleware L auth of
        Inl r \<Rightarrow> (r, s)
      | Inr u \<Rightarrow> handler u s)"

definition admin_route ::
  "libs \<Rightarrow> string option \<Rightarrow> (store \<Rightarrow> response \<times> store) \<Rightarrow> store \<Rightarrow> response \<times> store" where
  "admin_route L auth handler s =
     (case authMiddleware L auth of
        Inl r \<Rightarrow> (r, s)
      | Inr u \<Rightarrow>
          (case adminMiddleware (Some u) of
             Inl r \<Rightarrow> (r, s)
           | Inr _ \<Rightarrow> handler s))"

section \<open>Collection operations\<close>

text \<open>The first document that satisfies a filter is removed, or replaced.\<close>

fun delete_first :: "('a \<Rightarrow> bool) \<Rightarrow> 'a list \<Rightarrow> 'a list" where
  "delete_first P [] = []"
| "delete_first P (x # xs) = (if P x then xs else x # delete_first P xs)"

fun update_first :: "('a \<Rightarrow> bool) \<Rightarrow> ('a \<Rightarrow> 'a) \<Rightarrow> 'a list \<Rightarrow> 'a list" where
  "update_first P f [] = []"
| "update_first P f (x # xs) = (if P x then f x # xs else x # update_first P f xs)"

definition User_findById :: "objectId \<Rightarrow> store \<Rightarrow> user_doc option" where
  "User_findById i s = find (\<lambda>u. user_id u = i) (User s)"

definition User_findOne_email :: "string \<Rightarrow> store \<Rightarrow> user_doc option" where
  "User_findOne_email e s = find (\<lambda>u. user_email u = e) (User s)"

definition Product_findById :: "objectId \<Rightarrow> store \<Rightarrow> product_doc option" where
  "Product_findById i s = find (\<lambda>p. product_id p = i) (Product s)"

definition Order_findById :: "objectId \<Rightarrow> store \<Rightarrow> order_doc option" where
  "Order_findById i s = find (\<lambda>p. order_id p = i) (Order s)"

text \<open>
  \<^verbatim>\<open>User.create\<close> with the schema's defaults (\<^verbatim>\<open>role: 'user'\<close>, \<^verbatim>\<open>createdAt: Date.now\<close>).
  The schema declares \<^verbatim>\<open>email: { unique: true }\<close>: inserting an email that a stored
  account already has is rejected by the unique index, and the promise rejects.
\<close>

definition User_create ::
  "nat \<Rightarrow> string \<Rightarrow> string \<Rightarrow> string \<Rightarrow> string option \<Rightarrow> store \<Rightarrow> string + (user_doc \<times> store)" where
  "User_create now name email passwordHash phone s =
     (if list_ex (\<lambda>u. user_email u = email) (User s)
      then Inl ''E11000 duplicate key error''
      else
        (let u = \<lparr>user_id = next_oid s, user_name = name, user_email = email,
                  user_passwordHash = passwordHash, user_phone = phone,
                  user_role = ''user'', user_cart = [], user_addresses = [],
                  user_createdAt = now\<rparr>
         in Inr (u, s\<lparr>User := User s @ [u], next_oid := Suc (next_oid s)\<rparr>)))"

text \<open>
  \<^verbatim>\<open>user.save()\<close> of a loaded document \<open>old\<close> edited to \<open>new\<close>; the unique index is
  consulted only when the email was modified.
\<close>

definition User_save :: "user_doc \<Rightarrow> user_doc \<Rightarrow> store \<Rightarrow> string + store" where
  "User_save old new s =
     (if user_email new \<noteq> user_email old \<and> list_ex (\<lambda>u. user_email u = user_email new) (User s)
      then Inl ''E11000 duplicate key error''
      else Inr (s\<lparr>User := update_first (\<lambda>u. user_id u = user_id old) (\<lambda>_. new) (User s)\<rparr>))"

definition Order_create ::
  "nat \<Rightarrow> objectId \<Rightarrow> item list \<Rightarrow> number option \<Rightarrow> address option \<Rightarrow> string \<Rightarrow> store
     \<Rightarrow> order_doc \<times> store" where
  "Order_create now userId items tot deliveryAddress status s =
     (let order = \<lparr>order_id = next_oid s, order_userId = userId, order_items = items,
                    order_total = tot, order_deliveryAddress = deliveryAddress,
                    order_status = status, order_createdAt = now\<rparr>
      in (order, s\<lparr>Order := Order s @ [order], next_oid := Suc (next_oid s)\<rparr>))"

section \<open>SSE\<close>

text \<open>
  \<^verbatim>\<open>broadcastNewOrder\<close>: the payload is built once, before the loop; each write sits in
  its own \<^verbatim>\<open>try { } catch {}\<close>.
\<close>

definition sse_payload :: "libs \<Rightarrow> order_summary \<Rightarrow> string" where
  "sse_payload L orderObj = ''data: '' @ JSON_stringify L orderObj @ [CHR 0x0A, CHR 0x0A]"

definition write_client :: "string \<Rightarrow> sse_client \<Rightarrow> sse_client" where
  "write_client payload c =
     (case res_write (client_res c) payload of
        None \<Rightarrow> c
      | Some r \<Rightarrow> c\<lparr>client_res := r\<rparr>)"

definition broadcastNewOrder :: "libs \<Rightarrow> order_summary \<Rightarrow> store \<Rightarrow> store" where
  "broadcastNewOrder L orderObj s =
     (let payload = sse_payload L orderObj
      in s\<lparr>sseClients := map (write_client payload) (sseClients s)\<rparr>)"

text \<open>
  \<^verbatim>\<open>GET /events\<close> is registered with no middleware. The handler is given the request's
  \<^verbatim>\<open>Authorization\<close> header like every handler; \<open>clientId\<close> is
  \<^verbatim>\<open>Date.now() + Math.random()\<close>.
\<close>

definition events :: "string option \<Rightarrow> number \<Rightarrow> store \<Rightarrow> store" where
  "events auth clientId s =
     (let res = \<lparr>res_written = [[CHR 0x0A]], res_throws = False\<rparr>
      in s\<lparr>sseClients := sseClients s @ [\<lparr>client_id = clientId, client_res = res\<rparr>]\<rparr>)"

text \<open>The \<^verbatim>\<open>'close'\<close> listener of that request.\<close>

definition events_close :: "number \<Rightarrow> store \<Rightarrow> store" where
  "events_close clientId s =
     s\<lparr>sseClients := delete_first (\<lambda>c. client_id c = clientId) (sseClients s)\<rparr>"

section \<open>Auth routes\<close>

record register_body =
  reg_name :: "string option"
  reg_email :: "string option"
  reg_password :: "string option"
  reg_phone :: "string option"

definition issue_token :: "libs \<Rightarrow> user_doc \<Rightarrow> string" where
  "issue_token L user =
     jwt_sign L \<lparr>jwt_id = user_id user, jwt_role = user_role user, jwt_name = user_name user\<rparr>"

definition view_of :: "user_doc \<Rightarrow> user_view" where
  "view_of user =
     \<lparr>view_id = user_id user, view_name = user_name user, view_email = user_email user,
      view_role = user_role user\<rparr>"

text \<open>\<^verbatim>\<open>POST /api/auth/register\<close>\<close>

definition register :: "libs \<Rightarrow> nat \<Rightarrow> register_body \<Rightarrow> store \<Rightarrow> response \<times> store" where
  "register L now b s =
     (if truthy (reg_name b) \<and> truthy (reg_email b) \<and> truthy (reg_password b)
      then
        (let name = or_default (reg_name b) [];
             email = or_default (reg_email b) [];
             password = or_default (reg_password b) []
         in case User_findOne_email email s of
              Some existing \<Rightarrow> ((400, Err ''Email exists''), s)
            | None \<Rightarrow>
                (case User_create now name email (bcrypt_hash L password 10) (reg_phone b) s of
                   Inl msg \<Rightarrow> ((500, Err msg), s)
                 | Inr (user, s') \<Rightarrow>
                     ((201, TokenUser (issue_token L user) (view_of user)), s')))
      else ((400, Err ''Missing fields''), s))"

record login_body =
  login_email :: "string option"
  login_password :: "string option"

text \<open>\<^verbatim>\<open>POST /api/auth/login\<close>\<close>

definition login :: "libs \<Rightarrow> login_body \<Rightarrow> store \<Rightarrow> response \<times> store" where
  "login L b s =
     (if truthy (login_email b) \<and> truthy (login_password b)
      then
        (case User_findOne_email (or_default (login_email b) []) s of
           None \<Rightarrow> ((401, Err ''Invalid credentials''), s)
         | Some user \<Rightarrow>
             if bcrypt_compare L (or_default (login_password b) []) (user_passwordHash user)
             then ((200, TokenUser (issue_token L user) (view_of user)), s)
             else ((401, Err ''Invalid credentials''), s))
      else ((400, Err ''Missing fields''), s))"

record profile_body =
  prof_email :: "string option"
  prof_currentPassword :: "string option"
  prof_newPassword :: "string option"

text \<open>\<^verbatim>\<open>PUT /api/auth/profile\<close>, after \<^verbatim>\<open>authMiddleware\<close>.\<close>

definition profile_handler ::
  "libs \<Rightarrow> profile_body \<Rightarrow> jwt_payload \<Rightarrow> store \<Rightarrow> response \<times> store" where
  "profile_handler L b req_user s =
     (case User_findById (jwt_id req_user) s of
        None \<Rightarrow> ((404, Err ''User not found''), s)
      | Some user \<Rightarrow>
          if bcrypt_compare L (or_default (prof_currentPassword b) []) (user_passwordHash user)
          then
            (let user1 = (if truthy (prof_email b)
                          then user\<lparr>user_email := or_default (prof_email b) []\<rparr> else user);
                 user2 = (if truthy (prof_newPassword b)
                          then user1\<lparr>user_passwordHash :=
                                 bcrypt_hash L (or_default (prof_newPassword b) []) 10\<rparr>
                          else user1)
             in case User_save user user2 s of
                  Inl msg \<Rightarrow> ((500, Err msg), s)
                | Inr s' \<Rightarrow> ((200, SuccessEmail (user_email user2)), s'))
          else ((401, Err ''Current password incorrect''), s))"

definition profile ::
  "libs \<Rightarrow> string option \<Rightarrow> profile_body \<Rightarrow> store \<Rightarrow> response \<times> store" where
  "profile L auth b s = auth_route L auth (profile_handler L b) s"

section \<open>Checkout\<close>

text \<open>The decimal digits of a number, as \<^verbatim>\<open>`${Date.now()}`\<close> renders them.\<close>

definition digit_char :: "nat \<Rightarrow> char" where
  "digit_char d = char_of (48 + d)"

fun decimal :: "nat \<Rightarrow> string" where
  "decimal n = (if n < 10 then [digit_char n] else decimal (n div 10) @ [digit_char (n mod 10)])"

declare decimal.simps [simp del]

text \<open>
  The body of a checkout request, with every field at the type the order schema gives
  it: the items, the total and the delivery address are the values that the schema's
  cast yields for what was submitted, so \<^verbatim>\<open>Order.create\<close> accepts them. A body that the
  schema's cast or validators reject is not a value of this type.
\<close>

record checkout_body =
  co_items :: "item list option"
  co_total :: "number option"
  co_deliveryAddress :: "address option"

text \<open>\<^verbatim>\<open>deliveryAddress?.name || 'Guest'\<close> and \<^verbatim>\<open>deliveryAddress?.phone || ''\<close>\<close>

definition guest_name :: "address option \<Rightarrow> string" where
  "guest_name deliveryAddress =
     (case deliveryAddress of None \<Rightarrow> ''Guest'' | Some a \<Rightarrow> or_default (da_name a) ''Guest'')"

definition guest_phone :: "address option \<Rightarrow> string" where
  "guest_phone deliveryAddress =
     (case deliveryAddress of None \<Rightarrow> [] | Some a \<Rightarrow> or_default (da_phone a) [])"

definition guest_email :: "nat \<Rightarrow> string" where
  "guest_email now = ''guest+'' @ decimal now @ ''@local''"

text \<open>
  \<^verbatim>\<open>POST /api/placeGuestOrder\<close>. \<open>now\<close> is the clock (\<^verbatim>\<open>Date.now()\<close>, in
  milliseconds) and \<open>rnd\<close> is \<^verbatim>\<open>Math.random().toString(36).slice(2)\<close>. A rejected
  \<^verbatim>\<open>User.create\<close> is caught by the handler's \<^verbatim>\<open>catch\<close>.
\<close>

definition placeGuestOrder ::
  "libs \<Rightarrow> nat \<Rightarrow> string \<Rightarrow> checkout_body \<Rightarrow> store \<Rightarrow> response \<times> store" where
  "placeGuestOrder L now rnd b s =
     (case co_items b of
        None \<Rightarrow> ((400, Err ''No items''), s)
      | Some items \<Rightarrow>
          if items = [] then ((400, Err ''No items''), s)
          else
            (let deliveryAddress = co_deliveryAddress b
             in case User_create now (guest_name deliveryAddress) (guest_email now)
                       (bcrypt_hash L rnd 8) (Some (guest_phone deliveryAddress)) s of
                  Inl msg \<Rightarrow> ((500, Err msg), s)
                | Inr (guest, s1) \<Rightarrow>
                    (let (order, s2) =
                           Order_create now (user_id guest) items (co_total b) deliveryAddress
                             ''pending'' s1;
                         s3 = broadcastNewOrder L
                                \<lparr>sum_id = order_id order, sum_userName = user_name guest,
                                 sum_deliveryAddress = deliveryAddress, sum_items = items,
                                 sum_total = order_total order,
                                 sum_createdAt = order_createdAt order,
                                 sum_status = order_status order\<rparr> s2
                     in ((201, SuccessOrder (order_id order)), s3))))"

text \<open>\<^verbatim>\<open>POST /api/orders\<close>, after \<^verbatim>\<open>authMiddleware\<close>.\<close>

definition orders_handler ::
  "libs \<Rightarrow> nat \<Rightarrow> checkout_body \<Rightarrow> jwt_payload \<Rightarrow> store \<Rightarrow> response \<times> store" where
  "orders_handler L now b req_user s =
     (case co_items b of
        None \<Rightarrow> ((400, Err ''No items''), s)
      | Some items \<Rightarrow>
          if items = [] then ((400, Err ''No items''), s)
          else
            (case User_findById (jwt_id req_user) s of
               None \<Rightarrow> ((404, Err ''User not found''), s)
             | Some user \<Rightarrow>
                 (let (order, s1) =
                        Order_create now (user_id user) items (co_total b)
                          (co_deliveryAddress b) ''pending'' s;
                      s2 = broadcastNewOrder L
                             \<lparr>sum_id = order_id order, sum_userName = user_name user,
                              sum_deliveryAddress = order_deliveryAddress order,
                              sum_items = items, sum_total = order_total order,
                              sum_createdAt = order_createdAt order,
                              sum_status = order_status order\<rparr> s1
                  in ((201, SuccessOrder (order_id order)), s2))))"

definition orders_post ::
  "libs \<Rightarrow> string option \<Rightarrow> nat \<Rightarrow> checkout_body \<Rightarrow> store \<Rightarrow> response \<times> store" where
  "orders_post L auth now b s = auth_route L auth (orders_handler L now b) s"

section \<open>Admin orders\<close>

definition populate_userId :: "store \<Rightarrow> order_doc \<Rightarrow> order_doc \<times> populated_user option" where
  "populate_userId s ord =
     (ord, map_option
             (\<lambda>u. \<lparr>pop_id = user_id u, pop_name = user_name u, pop_email = user_email u,
                   pop_phone = user_phone u\<rparr>)
             (User_findById (order_userId ord) s))"

text \<open>\<^verbatim>\<open>GET /api/admin/orders\<close>: newest first, at most 500.\<close>

definition admin_orders_get :: "store \<Rightarrow> response \<times> store" where
  "admin_orders_get s =
     ((200, OrdersJson
              (map (populate_userId s)
                 (take 500 (sort_key (\<lambda>ord. - int (order_createdAt ord)) (Order s))))), s)"

text \<open>
  \<^verbatim>\<open>DELETE /api/admin/orders/:id\<close>: the result of \<^verbatim>\<open>findByIdAndDelete\<close> is not read;
  its rejection on a malformed id is caught and answered with 500.
\<close>

definition admin_orders_delete :: "param_id \<Rightarrow> store \<Rightarrow> response \<times> store" where
  "admin_orders_delete rid s =
     (case rid of
        Malformed raw \<Rightarrow> ((500, Err (cast_error raw)), s)
      | ObjectIdOf i \<Rightarrow>
          ((200, Success), s\<lparr>Order := delete_first (\<lambda>ord. order_id ord = i) (Order s)\<rparr>))"

text \<open>
  \<^verbatim>\<open>PUT /api/admin/orders/:id/status\<close>: \<^verbatim>\<open>findByIdAndUpdate\<close> with
  \<^verbatim>\<open>{ status: status || 'completed' }\<close> and \<^verbatim>\<open>{ new: true }\<close>.
\<close>

definition admin_orders_status :: "param_id \<Rightarrow> string option \<Rightarrow> store \<Rightarrow> response \<times> store" where
  "admin_orders_status rid status s =
     (case rid of
        Malformed raw \<Rightarrow> ((500, Err (cast_error raw)), s)
      | ObjectIdOf i \<Rightarrow>
          (case Order_findById i s of
             None \<Rightarrow> ((404, Err ''Order not found''), s)
           | Some ord \<Rightarrow>
               (let set_status = (\<lambda>d. d\<lparr>order_status := or_default status ''completed''\<rparr>)
                in ((200, OrderJson (set_status ord)),
                    s\<lparr>Order := update_first (\<lambda>d. order_id d = i) set_status (Order s)\<rparr>))))"

section \<open>Admin product CRUD\<close>

text \<open>The text fields of the multipart form; \<open>req_file\<close> below is \<^verbatim>\<open>req.file.path\<close>, \<open>None\<close> when no image was sent.\<close>

record product_form =
  pf_name :: "string option"
  pf_description :: "string option"
  pf_price :: "string option"
  pf_category :: "string option"
  pf_unit :: "string option"

text \<open>\<^verbatim>\<open>POST /api/admin/products\<close>. A \<^verbatim>\<open>NaN\<close> price fails the schema's cast to Number.\<close>

definition admin_products_post ::
  "libs \<Rightarrow> nat \<Rightarrow> product_form \<Rightarrow> string option \<Rightarrow> store \<Rightarrow> response \<times> store" where
  "admin_products_post L now form req_file s =
     (if truthy (pf_name form) \<and> truthy (pf_price form)
      then
        (case (case req_file of
                 None \<Rightarrow> Inr []
               | Some path \<Rightarrow>
                   (case cloudinary_upload L path of
                      Inl msg \<Rightarrow> Inl msg
                    | Inr secure_url \<Rightarrow> Inr (or_default secure_url []))) of
           Inl msg \<Rightarrow> ((500, Err msg), s)
         | Inr imageUrl \<Rightarrow>
             (case toNumber L (or_default (pf_price form) []) of
                None \<Rightarrow> ((500, Err ''Cast to Number failed''), s)
              | Some price \<Rightarrow>
                  (let p = \<lparr>product_id = next_oid s,
                            product_name = or_default (pf_name form) [],
                            product_description = pf_description form,
                            product_price = price,
                            product_category = pf_category form,
                            product_image = Some imageUrl,
                            product_unit = (case pf_unit form of None \<Rightarrow> [] | Some u \<Rightarrow> u),
                            product_createdAt = now\<rparr>
                   in ((201, ProductJson p),
                       s\<lparr>Product := Product s @ [p], next_oid := Suc (next_oid s)\<rparr>))))
      else ((400, Err ''Name and price are required''), s))"

text \<open>
  The \<^verbatim>\<open>update\<close> object of \<^verbatim>\<open>PUT /api/admin/products/:id\<close> after its \<^verbatim>\<open>undefined\<close>
  keys are deleted: \<open>None\<close> is a key that is not there. \<open>upd_price = Some None\<close> is the
  key \<^verbatim>\<open>price\<close> holding \<^verbatim>\<open>NaN\<close>.
\<close>

record product_update =
  upd_name :: "string option"
  upd_description :: "string option"
  upd_price :: "number option option"
  upd_category :: "string option"
  upd_unit :: "string option"
  upd_image :: "string option"

definition build_update :: "libs \<Rightarrow> product_form \<Rightarrow> product_update" where
  "build_update L form =
     \<lparr>upd_name = pf_name form,
      upd_description = pf_description form,
      upd_price = (if truthy (pf_price form)
                   then Some (toNumber L (or_default (pf_price form) [])) else None),
      upd_category = pf_category form,
      upd_unit = pf_unit form,
      upd_image = None\<rparr>"

text \<open>What \<^verbatim>\<open>$set\<close> does to the matched document.\<close>

definition apply_update :: "product_update \<Rightarrow> product_doc \<Rightarrow> product_doc" where
  "apply_update upd p =
     p\<lparr>product_name := (case upd_name upd of None \<Rightarrow> product_name p | Some v \<Rightarrow> v),
       product_description :=
         (case upd_description upd of None \<Rightarrow> product_description p | Some v \<Rightarrow> Some v),
       product_price :=
         (case upd_price upd of Some (Some v) \<Rightarrow> v | _ \<Rightarrow> product_price p),
       product_category :=
         (case upd_category upd of None \<Rightarrow> product_category p | Some v \<Rightarrow> Some v),
       product_unit := (case upd_unit upd of None \<Rightarrow> product_unit p | Some v \<Rightarrow> v),
       product_image :=
         (case upd_image upd of None \<Rightarrow> product_image p | Some v \<Rightarrow> Some v)\<rparr>"

text \<open>
  \<^verbatim>\<open>Product.findByIdAndUpdate(id, update, { new: true })\<close>: the id and the update are
  cast to the schema first (a malformed id rejects, a \<^verbatim>\<open>NaN\<close> price rejects); the result
  is the updated document, or \<^verbatim>\<open>null\<close> when no document has the id.
\<close>

definition Product_findByIdAndUpdate ::
  "param_id \<Rightarrow> product_update \<Rightarrow> store \<Rightarrow> string + (product_doc option \<times> store)" where
  "Product_findByIdAndUpdate rid upd s =
     (case rid of
        Malformed raw \<Rightarrow> Inl (cast_error raw)
      | ObjectIdOf i \<Rightarrow>
          if upd_price upd = Some None then Inl ''Cast to Number failed''
          else
            (case Product_findById i s of
               None \<Rightarrow> Inr (None, s)
             | Some p \<Rightarrow>
                 Inr (Some (apply_update upd p),
                      s\<lparr>Product := update_first (\<lambda>d. product_id d = i) (apply_update upd)
                                      (Product s)\<rparr>)))"

text \<open>
  The block \<^verbatim>\<open>if (req.file) { ...; update.image = uploadResult.secure_url || '' }\<close>;
  \<open>Inl\<close> when the upload rejects.
\<close>

definition upload_into :: "libs \<Rightarrow> string option \<Rightarrow> product_update \<Rightarrow> string + product_update" where
  "upload_into L req_file update =
     (case req_file of
        None \<Rightarrow> Inr update
      | Some path \<Rightarrow>
          (case cloudinary_upload L path of
             Inl msg \<Rightarrow> Inl msg
           | Inr secure_url \<Rightarrow> Inr (update\<lparr>upd_image := Some (or_default secure_url [])\<rparr>)))"

text \<open>\<^verbatim>\<open>PUT /api/admin/products/:id\<close>\<close>

definition admin_products_put ::
  "libs \<Rightarrow> param_id \<Rightarrow> product_form \<Rightarrow> string option \<Rightarrow> store \<Rightarrow> response \<times> store" where
  "admin_products_put L rid form req_file s =
     (case upload_into L req_file (build_update L form) of
        Inl msg \<Rightarrow> ((500, Err msg), s)
      | Inr update \<Rightarrow>
          (case Product_findByIdAndUpdate rid update s of
             Inl msg \<Rightarrow> ((500, Err msg), s)
           | Inr (None, s') \<Rightarrow> ((404, Err ''Product not found''), s')
           | Inr (Some product, s') \<Rightarrow> ((200, ProductJson product), s')))"

text \<open>
  \<^verbatim>\<open>DELETE /api/admin/products/:id\<close>: \<^verbatim>\<open>findByIdAndDelete\<close> gives the removed
  document, or \<^verbatim>\<open>null\<close>; its rejection on a malformed id is caught and answered with 500.
\<close>

definition admin_products_delete :: "param_id \<Rightarrow> store \<Rightarrow> response \<times> store" where
  "admin_products_delete rid s =
     (case rid of
        Malformed raw \<Rightarrow> ((500, Err (cast_error raw)), s)
      | ObjectIdOf i \<Rightarrow>
          (case Product_findById i s of
             None \<Rightarrow> ((404, Err ''Product not found''), s)
           | Some p \<Rightarrow>
               ((200, Success),
                s\<lparr>Product := delete_first (\<lambda>d. product_id d = i) (Product s)\<rparr>)))"

section \<open>The admin API\<close>

datatype admin_request =
    GetOrders
  | DeleteOrder param_id
  | PutOrderStatus param_id "string option"
  | PostProduct product_form "string option"
  | PutProduct param_id product_form "string option"
  | DeleteProduct param_id

fun admin_handler :: "libs \<Rightarrow> nat \<Rightarrow> admin_request \<Rightarrow> store \<Rightarrow> response \<times> store" where
  "admin_handler L now GetOrders s = admin_orders_get s"
| "admin_handler L now (DeleteOrder rid) s = admin_orders_delete rid s"
| "admin_handler L now (PutOrderStatus rid status) s = admin_orders_status rid status s"
| "admin_handler L now (PostProduct form req_file) s = admin_products_post L now form req_file s"
| "admin_handler L now (PutProduct rid form req_file) s = admin_products_put L rid form req_file s"
| "admin_handler L now (DeleteProduct rid) s = admin_products_delete rid s"

text \<open>Every \<^verbatim>\<open>/api/admin/*\<close> route is registered behind both middlewares.\<close>

definition admin_api ::
  "libs \<Rightarrow> string option \<Rightarrow> nat \<Rightarrow> admin_request \<Rightarrow> store \<Rightarrow> response \<times> store" where
  "admin_api L auth now r s = admin_route L auth (admin_handler L now r) s"

text \<open>The requests that write the catalog, and a run of admin requests one after another.\<close>

fun catalog_mutation :: "admin_request \<Rightarrow> bool" where
  "catalog_mutation (PostProduct form req_file) = True"
| "catalog_mutation (PutProduct rid form req_file) = True"
| "catalog_mutation (DeleteProduct rid) = True"
| "catalog_mutation _ = False"

fun admin_run :: "libs \<Rightarrow> (string option \<times> nat \<times> admin_request) list \<Rightarrow> store \<Rightarrow> store" where
  "admin_run L [] s = s"
| "admin_run L ((auth, now, r) # rs) s = admin_run L rs (snd (admin_api L auth now r s))"

section \<open>Requests served one after another\<close>

text \<open>
  The requests of the routes above, with what each handler reads besides the body: the
  \<^verbatim>\<open>Authorization\<close> header, \<^verbatim>\<open>Date.now()\<close>, the random guest password and, for
  \<^verbatim>\<open>GET /events\<close>, the subscriber id. \<open>CloseEvents\<close> is the \<^verbatim>\<open>close\<close> event of the
  stream with that id.
\<close>

datatype request =
    Register nat register_body
  | Login login_body
  | PutProfile "string option" profile_body
  | PlaceGuestOrder nat string checkout_body
  | PostOrder "string option" nat checkout_body
  | GetEvents "string option" number
  | CloseEvents number
  | AdminApi "string option" nat admin_request

text \<open>The state after one request, and after a sequence of them.\<close>

fun serve :: "libs \<Rightarrow> request \<Rightarrow> store \<Rightarrow> store" where
  "serve L (Register now b) s = snd (register L now b s)"
| "serve L (Login b) s = snd (login L b s)"
| "serve L (PutProfile auth b) s = snd (profile L auth b s)"
| "serve L (PlaceGuestOrder now rnd b) s = snd (placeGuestOrder L now rnd b s)"
| "serve L (PostOrder auth now b) s = snd (orders_post L auth now b s)"
| "serve L (GetEvents auth clientId) s = events auth clientId s"
| "serve L (CloseEvents clientId) s = events_close clientId s"
| "serve L (AdminApi auth now r) s = snd (admin_api L auth now r s)"

fun serve_all :: "libs \<Rightarrow> request list \<Rightarrow> store \<Rightarrow> store" where
  "serve_all L [] s = s"
| "serve_all L (r # rs) s = serve_all L rs (serve L r s)"

text \<open>
  The chunk an open event stream is expected to receive for a checkout: when the response
  carries a new order's id, the line \<^verbatim>\<open>data: \<close> followed by the JSON text of the order
  summary (the customer's name, the delivery address with its name and phone, the items
  and the total, as submitted) and two newlines; nothing for any other response.
\<close>

fun new_order_event :: "libs \<Rightarrow> string \<Rightarrow> nat \<Rightarrow> checkout_body \<Rightarrow> response \<Rightarrow> string list" where
  "new_order_event L userName now b (status, SuccessOrder oid) =
     [''data: '' @
      JSON_stringify L
        \<lparr>sum_id = oid, sum_userName = userName, sum_deliveryAddress = co_deliveryAddress b,
         sum_items = (case co_items b of None \<Rightarrow> [] | Some items \<Rightarrow> items),
         sum_total = co_total b, sum_createdAt = now, sum_status = ''pending''\<rparr> @
      [CHR 0x0A, CHR 0x0A]]"
| "new_order_event L userName now b (status, other) = []"

text \<open>
  The chunks expected for one request: those of a checkout, under the name of the guest
  or of the authenticated customer's account; and for a sequence of requests.
\<close>

fun events_for :: "libs \<Rightarrow> request \<Rightarrow> store \<Rightarrow> string list" where
  "events_for L (PlaceGuestOrder now rnd b) s =
     new_order_event L (guest_name (co_deliveryAddress b)) now b
       (fst (placeGuestOrder L now rnd b s))"
| "events_for L (PostOrder auth now b) s =
     (case authMiddleware L auth of
        Inl r \<Rightarrow> []
      | Inr u \<Rightarrow>
          (case User_findById (jwt_id u) s of
             None \<Rightarrow> []
           | Some user \<Rightarrow>
               new_order_event L (user_name user) now b (fst (orders_post L auth now b s))))"
| "events_for L r s = []"

fun events_during :: "libs \<Rightarrow> request list \<Rightarrow> store \<Rightarrow> string list" where
  "events_during L [] s = []"
| "events_during L (r # rs) s = events_for L r s @ events_during L rs (serve L r s)"

section \<open>What a placed order writes\<close>

text \<open>
  The account a guest checkout synthesizes, the order document both checkouts insert and
  the object they hand to \<^verbatim>\<open>broadcastNewOrder\<close>, named so that the theorems below can
  refer to them; \<open>placeGuestOrder_placed\<close> and \<open>orders_handler_placed\<close> prove that the
  handlers write exactly these.
\<close>

definition guest_account :: "libs \<Rightarrow> objectId \<Rightarrow> nat \<Rightarrow> string \<Rightarrow> checkout_body \<Rightarrow> user_doc" where
  "guest_account L uid now rnd b =
     \<lparr>user_id = uid, user_name = guest_name (co_deliveryAddress b),
      user_email = guest_email now, user_passwordHash = bcrypt_hash L rnd 8,
      user_phone = Some (guest_phone (co_deliveryAddress b)), user_role = ''user'',
      user_cart = [], user_addresses = [], user_createdAt = now\<rparr>"

definition placed_order :: "objectId \<Rightarrow> objectId \<Rightarrow> nat \<Rightarrow> item list \<Rightarrow> checkout_body \<Rightarrow> order_doc" where
  "placed_order oid uid now items b =
     \<lparr>order_id = oid, order_userId = uid, order_items = items, order_total = co_total b,
      order_deliveryAddress = co_deliveryAddress b, order_status = ''pending'',
      order_createdAt = now\<rparr>"

definition order_event :: "string \<Rightarrow> order_doc \<Rightarrow> order_summary" where
  "order_event userName ord =
     \<lparr>sum_id = order_id ord, sum_userName = userName,
      sum_deliveryAddress = order_deliveryAddress ord, sum_items = order_items ord,
      sum_total = order_total ord, sum_createdAt = order_createdAt ord,
      sum_status = order_status ord\<rparr>"

text \<open>
  What one broadcast of \<open>payload\<close> does to a subscriber: nothing when the write
  throws, else the payload is appended to what the stream has been sent.
\<close>

definition delivered :: "string \<Rightarrow> sse_client \<Rightarrow> sse_client \<Rightarrow> bool" where
  "delivered payload c c' =
     (if res_throws (client_res c) then c' = c
      else c' = c\<lparr>client_res := (client_res c)\<lparr>res_written := res_written (client_res c) @ [payload]\<rparr>\<rparr>)"

section \<open>Example inputs\<close>

text \<open>
  Concrete library functions, stores and requests on which the theorems are instantiated.
  \<open>seeded_store\<close> is the database after \<^verbatim>\<open>seed()\<close> on an empty database;
  \<open>registered_store\<close> has one registered customer besides.
\<close>

definition example_libs :: libs where
  "example_libs =
     \<lparr>jwt_sign = (\<lambda>p. if jwt_role p = ''admin'' then ''tok.admin'' else ''tok.user''),
      jwt_verify = (\<lambda>t. if t = ''tok.admin''
                          then Some \<lparr>jwt_id = 2, jwt_role = ''admin'', jwt_name = ''Admin''\<rparr>
                          else if t = ''tok.user''
                          then Some \<lparr>jwt_id = 3, jwt_role = ''user'', jwt_name = ''Asha''\<rparr>
                          else None),
      bcrypt_hash = (\<lambda>pw cost. ''$2a$'' @ pw),
      bcrypt_compare = (\<lambda>pw h. h = ''$2a$'' @ pw),
      JSON_stringify = (\<lambda>ord. ''{userName:'' @ sum_userName ord @ '',status:'' @ sum_status ord @ ''}''),
      toNumber = (\<lambda>t. if t = ''90'' then Some 90 else if t = ''95'' then Some 95 else None),
      cloudinary_upload = (\<lambda>path. Inr (Some (''https://cdn/'' @ path)))\<rparr>"

definition seeded_store :: store where
  "seeded_store =
     \<lparr>User = [\<lparr>user_id = 2, user_name = ''Admin'', user_email = ''admin@grocery.com'',
               user_passwordHash = ''$2a$admin123'', user_phone = None, user_role = ''admin'',
               user_cart = [], user_addresses = [], user_createdAt = 0\<rparr>],
      Product = [\<lparr>product_id = 0, product_name = ''Rice'',
                  product_description = Some ''Basmati rice'', product_price = 90,
                  product_category = Some ''Essentials'', product_image = None,
                  product_unit = ''1 kg packet'', product_createdAt = 0\<rparr>,
                 \<lparr>product_id = 1, product_name = ''Milk'',
                  product_description = Some ''Fresh milk'', product_price = 60,
                  product_category = Some ''Dairy'', product_image = None,
                  product_unit = ''1 litre'', product_createdAt = 0\<rparr>],
      Order = [],
      sseClients = [],
      next_oid = 3\<rparr>"

definition asha :: user_doc where
  "asha = \<lparr>user_id = 3, user_name = ''Asha'', user_email = ''asha@example.com'',
            user_passwordHash = ''$2a$s3cret'', user_phone = Some ''9876543210'',
            user_role = ''user'', user_cart = [], user_addresses = [], user_createdAt = 1\<rparr>"

definition registered_store :: store where
  "registered_store = seeded_store\<lparr>User := User seeded_store @ [asha], next_oid := 4\<rparr>"

definition price_only_form :: product_form where
  "price_only_form =
     \<lparr>pf_name = None, pf_description = None, pf_price = Some ''95'', pf_category = None,
      pf_unit = None\<rparr>"

definition example_catalog_edits :: "(string option \<times> nat \<times> admin_request) list" where
  "example_catalog_edits =
     [(Some ''Bearer tok.admin'', 1700000005000, PutProduct (ObjectIdOf 0) price_only_form None),
      (Some ''Bearer tok.admin'', 1700000006000, DeleteProduct (ObjectIdOf 0))]"

definition example_checkout :: checkout_body where
  "example_checkout =
     \<lparr>co_items = Some [\<lparr>item_productId = 0, item_name = ''Rice'', item_price = 90,
                         item_quantity = 2\<rparr>],
      co_total = Some 180,
      co_deliveryAddress =
        Some \<lparr>da_name = Some ''A'', da_phone = Some ''123'', da_line1 = Some ''X'',
              da_line2 = None, da_city = Some ''Y'', da_pincode = Some ''1'', da_lat = None,
              da_lng = None, da_notes = None\<rparr>\<rparr>"

definition rename_form :: product_form where
  "rename_form =
     \<lparr>pf_name = Some ''Brown rice'', pf_description = None, pf_price = None,
      pf_category = None, pf_unit = None\<rparr>"

definition asha_registration :: register_body where
  "asha_registration =
     \<lparr>reg_name = Some ''Asha'', reg_email = Some ''asha@example.com'',
      reg_password = Some ''s3cret'', reg_phone = Some ''9876543210''\<rparr>"

definition open_client :: sse_client where
  "open_client =
     \<lparr>client_id = 1700000000001.25,
      client_res = \<lparr>res_written = [[CHR 0x0A]], res_throws = False\<rparr>\<rparr>"

definition broken_client :: sse_client where
  "broken_client =
     \<lparr>client_id = 1700000000002.5,
      client_res = \<lparr>res_written = [[CHR 0x0A]], res_throws = True\<rparr>\<rparr>"

definition watched_store :: store where
  "watched_store = registered_store\<lparr>sseClients := [open_client, broken_client]\<rparr>"

definition ordered_store :: store where
  "ordered_store =
     registered_store
       \<lparr>Order := [\<lparr>order_id = 4, order_userId = 3,
                    order_items = [\<lparr>item_productId = 0, item_name = ''Rice'', item_price = 90,
                                    item_quantity = 2\<rparr>],
                    order_total = Some 180, order_deliveryAddress = None,
                    order_status = ''pending'', order_createdAt = 1700000000000\<rparr>],
        next_oid := 5\<rparr>"

text \<open>
  A \<^verbatim>\<open>JSON.stringify\<close> that renders the fields of the order summary, so that the text
  of an event can be read; the libraries with it; and a sequence of requests: a guest
  checkout, another subscription, and a customer's checkout.
\<close>

definition example_number :: "number \<Rightarrow> string" where
  "example_number x =
     (if x = 2 then ''2'' else if x = 90 then ''90'' else if x = 180 then ''180'' else ''?'')"

definition example_stringify :: "order_summary \<Rightarrow> string" where
  "example_stringify ord =
     ''{userName:'' @ sum_userName ord @
     '',deliveryAddress:'' @
       (case sum_deliveryAddress ord of
          None \<Rightarrow> ''null''
        | Some a \<Rightarrow>
            ''{name:'' @ or_default (da_name a) [] @ '',phone:'' @ or_default (da_phone a) [] @
            '',line1:'' @ or_default (da_line1 a) [] @ '',city:'' @ or_default (da_city a) [] @
            ''}'') @
     '',items:['' @
       concat (map (\<lambda>i. ''{name:'' @ item_name i @ '',price:'' @ example_number (item_price i) @
                         '',quantity:'' @ example_number (item_quantity i) @ ''}'')
                 (sum_items ord)) @
     ''],total:'' @ (case sum_total ord of None \<Rightarrow> ''null'' | Some t \<Rightarrow> example_number t) @
     ''}''"

definition verbose_libs :: libs where
  "verbose_libs = example_libs\<lparr>JSON_stringify := example_stringify\<rparr>"

definition example_requests :: "request list" where
  "example_requests =
     [PlaceGuestOrder 1700000000000 ''k3x9'' example_checkout,
      GetEvents None 1700000000004.5,
      PostOrder (Some ''Bearer tok.user'') 1700000000200 example_checkout]"

section \<open>Lemmas about the collection operations and the middlewares\<close>

lemma split_at_first:
  "find P ys = None \<Longrightarrow> P x \<Longrightarrow> delete_first P (ys @ x # zs) = ys @ zs"
  by (induction ys) (auto split: if_splits)

lemma delete_first_none: "find P xs = None \<Longrightarrow> delete_first P xs = xs"
  by (induction xs) (auto split: if_splits)

lemma delete_first_some:
  "find P xs = Some x \<Longrightarrow>
     \<exists>ys zs. xs = ys @ x # zs \<and> delete_first P xs = ys @ zs \<and> find P ys = None"
proof (induction xs)
  case Nil
  then show ?case by simp
next
  case (Cons a xs)
  show ?case
  proof (cases "P a")
    case True
    with Cons.prems have "a = x" by simp
    with True show ?thesis by (intro exI[of _ "[]"] exI[of _ xs]) simp
  next
    case False
    with Cons obtain ys zs where "xs = ys @ x # zs" "delete_first P xs = ys @ zs" "find P ys = None"
      by auto
    with False show ?thesis by (intro exI[of _ "a # ys"] exI[of _ zs]) simp
  qed
qed

lemma update_first_same: "find P xs = Some x \<Longrightarrow> update_first P (\<lambda>_. x) xs = xs"
  by (induction xs) (auto split: if_splits)

lemma find_update_first_hit:
  "find P xs = Some x \<Longrightarrow> P (f x) \<Longrightarrow> find P (update_first P f xs) = Some (f x)"
  by (induction xs) (auto split: if_splits)

lemma find_update_first_other:
  "(\<And>y. P y \<Longrightarrow> Q (f y) = Q y) \<Longrightarrow> (\<And>y. P y \<Longrightarrow> \<not> Q y)
     \<Longrightarrow> find Q (update_first P f xs) = find Q xs"
  by (induction xs) auto

lemma find_append_fresh: "find P xs = None \<Longrightarrow> P x \<Longrightarrow> find P (xs @ [x]) = Some x"
  by (induction xs) (auto split: if_splits)

lemma find_None_list_ex: "find P xs = None \<longleftrightarrow> \<not> list_ex P xs"
  by (induction xs) auto

lemma admin_api_admin:
  "authMiddleware L auth = Inr u \<Longrightarrow> jwt_role u = ''admin''
     \<Longrightarrow> admin_api L auth now r s = admin_handler L now r s"
  by (simp add: admin_api_def admin_route_def adminMiddleware_def)

lemma admin_products_put_frame:
  "User (snd (admin_products_put L rid form req_file s)) = User s \<and>
   Order (snd (admin_products_put L rid form req_file s)) = Order s \<and>
   sseClients (snd (admin_products_put L rid form req_file s)) = sseClients s"
  by (auto simp: admin_products_put_def Product_findByIdAndUpdate_def
      split: option.splits sum.splits param_id.splits)

lemma admin_products_post_frame:
  "User (snd (admin_products_post L now form req_file s)) = User s \<and>
   Order (snd (admin_products_post L now form req_file s)) = Order s \<and>
   sseClients (snd (admin_products_post L now form req_file s)) = sseClients s"
  by (auto simp: admin_products_post_def Let_def split: option.splits sum.splits)

lemma admin_products_delete_frame:
  "User (snd (admin_products_delete rid s)) = User s \<and>
   Order (snd (admin_products_delete rid s)) = Order s \<and>
   sseClients (snd (admin_products_delete rid s)) = sseClients s"
  by (auto simp: admin_products_delete_def split: option.splits param_id.splits)

lemma admin_route_cases:
  "admin_route L auth h s = h s \<or> snd (admin_route L auth h s) = s"
  by (auto simp: admin_route_def split: sum.splits)

lemma catalog_mutation_Order:
  "catalog_mutation r \<Longrightarrow> Order (snd (admin_api L auth now r s)) = Order s"
  using admin_route_cases[of L auth "admin_handler L now r" s]
  by (cases r)
     (auto simp: admin_api_def admin_products_put_frame admin_products_post_frame
        admin_products_delete_frame)

lemma admin_run_Order:
  "list_all (\<lambda>c. catalog_mutation (snd (snd c))) calls \<Longrightarrow> Order (admin_run L calls s) = Order s"
  by (induction calls arbitrary: s) (auto simp: catalog_mutation_Order)


lemma split_on_no_sep: "c \<notin> set t \<Longrightarrow> split_on c t = [t]"
  by (induction t) auto

lemma bearer_token_Bearer: "CHR '' '' \<notin> set t \<Longrightarrow> bearer_token (''Bearer '' @ t) = Some t"
  by (simp add: bearer_token_def at_index_def split_on_no_sep)

lemma admin_route_no_token:
  "\<not> truthy auth \<Longrightarrow> admin_route L auth h s = ((401, Err ''No token''), s)"
  by (cases auth) (auto simp: admin_route_def authMiddleware_def)

lemma admin_route_invalid:
  "auth = Some a \<Longrightarrow> a \<noteq> [] \<Longrightarrow> bearer_token a = None \<or> (\<exists>t. bearer_token a = Some t \<and> jwt_verify L t = None)
   \<Longrightarrow> admin_route L auth h s = ((401, Err ''Invalid token''), s)"
  by (auto simp: admin_route_def authMiddleware_def)

lemma admin_route_forbidden:
  "auth = Some a \<Longrightarrow> a \<noteq> [] \<Longrightarrow> bearer_token a = Some t \<Longrightarrow> jwt_verify L t = Some u \<Longrightarrow> jwt_role u \<noteq> ''admin''
   \<Longrightarrow> admin_route L auth h s = ((403, Err ''Admin only''), s)"
  by (auto simp: admin_route_def authMiddleware_def adminMiddleware_def)

lemma auth_user: "authMiddleware example_libs (Some ''Bearer tok.user'') = Inr \<lparr>jwt_id = 3, jwt_role = ''user'', jwt_name = ''Asha''\<rparr>"
  by (simp add: authMiddleware_def bearer_token_def at_index_def example_libs_def)

lemma auth_admin: "authMiddleware example_libs (Some ''Bearer tok.admin'') = Inr \<lparr>jwt_id = 2, jwt_role = ''admin'', jwt_name = ''Admin''\<rparr>"
  by (simp add: authMiddleware_def bearer_token_def at_index_def example_libs_def)

lemma registered_asha: "User_findById 3 registered_store = Some asha"
  by (simp add: User_findById_def registered_store_def seeded_store_def asha_def)

lemma find_Some_holds: "find P xs = Some x \<Longrightarrow> P x"
  by (induction xs) (auto split: if_splits)

lemma upload_into_fields:
  "upload_into L req_file upd = Inr upd' \<Longrightarrow>
     upd_name upd' = upd_name upd \<and> upd_description upd' = upd_description upd \<and>
     upd_price upd' = upd_price upd \<and> upd_category upd' = upd_category upd \<and>
     upd_unit upd' = upd_unit upd \<and> (req_file = None \<longrightarrow> upd_image upd' = upd_image upd)"
  by (auto simp: upload_into_def split: option.splits sum.splits)

lemma apply_update_id: "product_id (apply_update upd p) = product_id p"
  by (simp add: apply_update_def)

lemma admin_products_put_outcome:
  assumes "Product_findById i s = Some p"
  shows "(fst (fst (admin_products_put L (ObjectIdOf i) form req_file s)) = 500 \<and>
          snd (admin_products_put L (ObjectIdOf i) form req_file s) = s) \<or>
         (\<exists>upd. upload_into L req_file (build_update L form) = Inr upd \<and>
            upd_price upd \<noteq> Some None \<and>
            admin_products_put L (ObjectIdOf i) form req_file s =
              ((200, ProductJson (apply_update upd p)),
               s\<lparr>Product := update_first (\<lambda>d. product_id d = i) (apply_update upd) (Product s)\<rparr>))"
  using assms
  by (auto simp: admin_products_put_def Product_findByIdAndUpdate_def split: sum.splits)

lemma Product_findById_other:
  assumes "j \<noteq> i"
  shows "Product_findById j
           (s\<lparr>Product := update_first (\<lambda>d. product_id d = i) (apply_update upd) (Product s)\<rparr>)
         = Product_findById j s"
proof -
  have "find (\<lambda>d. product_id d = j)
          (update_first (\<lambda>d. product_id d = i) (apply_update upd) (Product s))
        = find (\<lambda>d. product_id d = j) (Product s)"
    using assms by (intro find_update_first_other) (simp_all add: apply_update_id)
  then show ?thesis
    by (simp add: Product_findById_def)
qed

lemma Product_findById_updated:
  assumes "Product_findById i s = Some p"
  shows "Product_findById i
           (s\<lparr>Product := update_first (\<lambda>d. product_id d = i) (apply_update upd) (Product s)\<rparr>)
         = Some (apply_update upd p)"
proof -
  from assms have "product_id p = i"
    unfolding Product_findById_def by (rule find_Some_holds)
  with assms show ?thesis
    unfolding Product_findById_def by (simp add: find_update_first_hit apply_update_id)
qed

lemma profile_authenticated:
  "authMiddleware L auth = Inr u \<Longrightarrow> profile L auth b s = profile_handler L b u s"
  by (simp add: profile_def auth_route_def)

lemma User_findById_other:
  assumes "j \<noteq> i" and "user_id new = i"
  shows "User_findById j (s\<lparr>User := update_first (\<lambda>x. user_id x = i) (\<lambda>_. new) (User s)\<rparr>)
         = User_findById j s"
proof -
  have "find (\<lambda>x. user_id x = j)
          (update_first (\<lambda>x. user_id x = i) (\<lambda>_. new) (User s))
        = find (\<lambda>x. user_id x = j) (User s)"
    using assms by (intro find_update_first_other) simp_all
  then show ?thesis
    by (simp add: User_findById_def)
qed

lemma register_created:
  assumes "register L now b s = ((201, body), s1)"
  shows "\<exists>u. s1 = s\<lparr>User := User s @ [u], next_oid := Suc (next_oid s)\<rparr> \<and>
           reg_email b = Some (user_email u) \<and> user_email u \<noteq> [] \<and>
           User_findOne_email (user_email u) s = None \<and> user_role u = ''user'' \<and>
           body = TokenUser (issue_token L u) (view_of u)"
proof -
  from assms have t: "truthy (reg_name b)" "truthy (reg_email b)" "truthy (reg_password b)"
    by (auto simp: register_def split: if_splits)
  then obtain e where e: "reg_email b = Some e" "e \<noteq> []"
    by (cases "reg_email b") auto
  from assms t e have none: "User_findOne_email e s = None"
    by (auto simp: register_def split: option.splits)
  then have fresh: "\<not> list_ex (\<lambda>u. user_email u = e) (User s)"
    by (simp add: User_findOne_email_def find_None_list_ex)
  from assms t e none fresh show ?thesis
    by (auto simp: register_def User_create_def Let_def)
qed

lemma register_existing:
  assumes "User_findOne_email e s = Some u" and "reg_email b = Some e"
  shows "fst (fst (register L now b s)) = 400 \<and> snd (register L now b s) = s \<and>
     (truthy (reg_name b) \<and> truthy (reg_password b) \<and> e \<noteq> [] \<longrightarrow>
        fst (register L now b s) = (400, Err ''Email exists''))"
  using assms by (auto simp: register_def)

section \<open>Lemmas about checkout\<close>

lemma placeGuestOrder_placed:
  assumes "co_items b = Some items" and "items \<noteq> []"
    and "\<not> list_ex (\<lambda>u. user_email u = guest_email now) (User s)"
  shows "placeGuestOrder L now rnd b s =
     ((201, SuccessOrder (Suc (next_oid s))),
      s\<lparr>User := User s @ [guest_account L (next_oid s) now rnd b],
        Order := Order s @ [placed_order (Suc (next_oid s)) (next_oid s) now items b],
        sseClients :=
          map (write_client
                 (sse_payload L
                    (order_event (guest_name (co_deliveryAddress b))
                       (placed_order (Suc (next_oid s)) (next_oid s) now items b))))
            (sseClients s),
        next_oid := Suc (Suc (next_oid s))\<rparr>)"
  using assms
  by (simp add: placeGuestOrder_def User_create_def Order_create_def broadcastNewOrder_def
      guest_account_def placed_order_def order_event_def Let_def)

lemma orders_handler_placed:
  assumes "co_items b = Some items" and "items \<noteq> []"
    and "User_findById (jwt_id u) s = Some user"
  shows "orders_handler L now b u s =
     ((201, SuccessOrder (next_oid s)),
      s\<lparr>Order := Order s @ [placed_order (next_oid s) (user_id user) now items b],
        sseClients :=
          map (write_client
                 (sse_payload L
                    (order_event (user_name user)
                       (placed_order (next_oid s) (user_id user) now items b))))
            (sseClients s),
        next_oid := Suc (next_oid s)\<rparr>)"
  using assms
  by (simp add: orders_handler_def Order_create_def broadcastNewOrder_def
      placed_order_def order_event_def Let_def)

lemma orders_post_authenticated:
  "authMiddleware L auth = Inr u \<Longrightarrow> orders_post L auth now b s = orders_handler L now b u s"
  by (simp add: orders_post_def auth_route_def)


lemma placeGuestOrder_duplicate:
  assumes "co_items b = Some items" and "items \<noteq> []"
    and "list_ex (\<lambda>u. user_email u = guest_email now) (User s)"
  shows "placeGuestOrder L now rnd b s = ((500, Err ''E11000 duplicate key error''), s)"
  using assms by (simp add: placeGuestOrder_def User_create_def)

lemma broadcast_delivered: "list_all2 (delivered payload) cs (map (write_client payload) cs)"
  by (induction cs) (simp_all add: delivered_def write_client_def res_write_def)

lemma sse_payload_not_newline: "sse_payload L orderObj \<noteq> [CHR 0x0A]"
  by (simp add: sse_payload_def)

lemma events_frame:
  "User (events auth cid s) = User s \<and> Order (events auth cid s) = Order s \<and>
   Product (events auth cid s) = Product s \<and> next_oid (events auth cid s) = next_oid s"
  by (simp add: events_def)

section \<open>Checkout stores what was submitted\<close>

text \<open>
  Claim C1, as the code has it. The submitted items, total and delivery address are
  values of the order schema's types (see \<open>checkout_body\<close>). A checkout whose item list
  is non-empty and whose owning account is resolved (guest: no stored account has the
  placeholder email, so \<^verbatim>\<open>User.create\<close> succeeds; authenticated: the verified token's
  account id is in the account collection) answers 201 with the id of a new order,
  appended to the order collection, whose items, total and delivery address are exactly
  the submitted ones. Nothing is read from the catalog: with any other product collection
  the response and the stored order are the same. Any later run of admin product requests
  (create, update, delete) leaves the order collection as it was. An authenticated
  checkout whose verified token names an account that is not in the account collection
  answers 404 and leaves the whole state, so also the order collection, as it was.
\<close>

theorem checkout_persists_submitted_order:
  assumes "co_items b = Some items" and "items \<noteq> []"
  shows
    "(\<not> list_ex (\<lambda>u. user_email u = guest_email now) (User s) \<longrightarrow>
        (\<exists>ord s'. placeGuestOrder L now rnd b s = ((201, SuccessOrder (order_id ord)), s') \<and>
           Order s' = Order s @ [ord] \<and>
           order_items ord = items \<and> order_total ord = co_total b \<and>
           order_deliveryAddress ord = co_deliveryAddress b \<and>
           placeGuestOrder L now rnd b (s\<lparr>Product := catalog\<rparr>) =
             ((201, SuccessOrder (order_id ord)), s'\<lparr>Product := catalog\<rparr>) \<and>
           (list_all (\<lambda>c. catalog_mutation (snd (snd c))) calls \<longrightarrow>
              Order (admin_run L' calls s') = Order s'))) \<and>
     (authMiddleware L auth = Inr u \<and> User_findById (jwt_id u) s = Some user \<longrightarrow>
        (\<exists>ord s'. orders_post L auth now b s = ((201, SuccessOrder (order_id ord)), s') \<and>
           Order s' = Order s @ [ord] \<and>
           order_items ord = items \<and> order_total ord = co_total b \<and>
           order_deliveryAddress ord = co_deliveryAddress b \<and>
           orders_post L auth now b (s\<lparr>Product := catalog\<rparr>) =
             ((201, SuccessOrder (order_id ord)), s'\<lparr>Product := catalog\<rparr>) \<and>
           (list_all (\<lambda>c. catalog_mutation (snd (snd c))) calls \<longrightarrow>
              Order (admin_run L' calls s') = Order s'))) \<and>
     (authMiddleware L auth = Inr u \<and> User_findById (jwt_id u) s = None \<longrightarrow>
        orders_post L auth now b s = ((404, Err ''User not found''), s))"
proof (intro conjI impI)
  assume "authMiddleware L auth = Inr u \<and> User_findById (jwt_id u) s = None"
  then show "orders_post L auth now b s = ((404, Err ''User not found''), s)"
    using assms by (simp add: orders_post_authenticated orders_handler_def)
next
  assume fresh: "\<not> list_ex (\<lambda>u. user_email u = guest_email now) (User s)"
  let ?ord = "placed_order (Suc (next_oid s)) (next_oid s) now items b"
  let ?s' = "snd (placeGuestOrder L now rnd b s)"
  have run: "placeGuestOrder L now rnd b s = ((201, SuccessOrder (order_id ?ord)), ?s')"
    using assms fresh by (simp add: placeGuestOrder_placed placed_order_def)
  have ord: "Order ?s' = Order s @ [?ord]"
    using assms fresh by (simp add: placeGuestOrder_placed)
  have cat: "placeGuestOrder L now rnd b (s\<lparr>Product := catalog\<rparr>) =
      ((201, SuccessOrder (order_id ?ord)), ?s'\<lparr>Product := catalog\<rparr>)"
    using assms fresh by (simp add: placeGuestOrder_placed placed_order_def)
  have later: "list_all (\<lambda>c. catalog_mutation (snd (snd c))) calls \<longrightarrow>
      Order (admin_run L' calls ?s') = Order ?s'"
    by (simp add: admin_run_Order)
  show "\<exists>ord s'. placeGuestOrder L now rnd b s = ((201, SuccessOrder (order_id ord)), s') \<and>
           Order s' = Order s @ [ord] \<and>
           order_items ord = items \<and> order_total ord = co_total b \<and>
           order_deliveryAddress ord = co_deliveryAddress b \<and>
           placeGuestOrder L now rnd b (s\<lparr>Product := catalog\<rparr>) =
             ((201, SuccessOrder (order_id ord)), s'\<lparr>Product := catalog\<rparr>) \<and>
           (list_all (\<lambda>c. catalog_mutation (snd (snd c))) calls \<longrightarrow>
              Order (admin_run L' calls s') = Order s')"
    using run ord cat later
    by (intro exI[of _ ?ord] exI[of _ ?s']) (simp add: placed_order_def)
next
  assume auth: "authMiddleware L auth = Inr u \<and> User_findById (jwt_id u) s = Some user"
  let ?ord = "placed_order (next_oid s) (user_id user) now items b"
  let ?s' = "snd (orders_post L auth now b s)"
  have run: "orders_post L auth now b s = ((201, SuccessOrder (order_id ?ord)), ?s')"
    using assms auth
    by (simp add: orders_post_authenticated orders_handler_placed placed_order_def)
  have ord: "Order ?s' = Order s @ [?ord]"
    using assms auth by (simp add: orders_post_authenticated orders_handler_placed)
  have found: "User_findById (jwt_id u) (s\<lparr>Product := catalog\<rparr>) = Some user"
    using auth by (simp add: User_findById_def)
  have cat: "orders_post L auth now b (s\<lparr>Product := catalog\<rparr>) =
      ((201, SuccessOrder (order_id ?ord)), ?s'\<lparr>Product := catalog\<rparr>)"
    using assms auth found
    by (simp add: orders_post_authenticated orders_handler_placed placed_order_def)
  have later: "list_all (\<lambda>c. catalog_mutation (snd (snd c))) calls \<longrightarrow>
      Order (admin_run L' calls ?s') = Order ?s'"
    by (simp add: admin_run_Order)
  show "\<exists>ord s'. orders_post L auth now b s = ((201, SuccessOrder (order_id ord)), s') \<and>
           Order s' = Order s @ [ord] \<and>
           order_items ord = items \<and> order_total ord = co_total b \<and>
           order_deliveryAddress ord = co_deliveryAddress b \<and>
           orders_post L auth now b (s\<lparr>Product := catalog\<rparr>) =
             ((201, SuccessOrder (order_id ord)), s'\<lparr>Product := catalog\<rparr>) \<and>
           (list_all (\<lambda>c. catalog_mutation (snd (snd c))) calls \<longrightarrow>
              Order (admin_run L' calls s') = Order s')"
    using run ord cat later
    by (intro exI[of _ ?ord] exI[of _ ?s']) (simp add: placed_order_def)
qed



theorem checkout_persists_submitted_order_witness:
  "(\<exists>ord s'. placeGuestOrder example_libs 1700000000000 ''k3x9'' example_checkout seeded_store
        = ((201, SuccessOrder (order_id ord)), s') \<and>
      Order s' = Order seeded_store @ [ord] \<and>
      order_items ord =
        [\<lparr>item_productId = 0, item_name = ''Rice'', item_price = 90, item_quantity = 2\<rparr>] \<and>
      order_total ord = Some 180 \<and>
      order_deliveryAddress ord = co_deliveryAddress example_checkout \<and>
      Order (admin_run example_libs example_catalog_edits s') = Order s') \<and>
   (\<exists>ord s'. orders_post example_libs (Some ''Bearer tok.user'') 1700000000000 example_checkout
        registered_store = ((201, SuccessOrder (order_id ord)), s') \<and>
      Order s' = Order registered_store @ [ord] \<and>
      order_items ord =
        [\<lparr>item_productId = 0, item_name = ''Rice'', item_price = 90, item_quantity = 2\<rparr>] \<and>
      order_total ord = Some 180 \<and>
      order_deliveryAddress ord = co_deliveryAddress example_checkout \<and>
      Order (admin_run example_libs example_catalog_edits s') = Order s') \<and>
   orders_post example_libs (Some ''Bearer tok.user'') 1700000000000 example_checkout
       (seeded_store\<lparr>Order := Order ordered_store\<rparr>)
     = ((404, Err ''User not found''), seeded_store\<lparr>Order := Order ordered_store\<rparr>)"
proof -
  let ?rice = "\<lparr>item_productId = 0, item_name = ''Rice'', item_price = 90, item_quantity = 2\<rparr>"
  have items: "co_items example_checkout = Some [?rice]" "[?rice] \<noteq> []"
    by (simp_all add: example_checkout_def)
  have tot: "co_total example_checkout = Some 180"
    by (simp add: example_checkout_def)
  have fresh: "\<not> list_ex (\<lambda>u. user_email u = guest_email 1700000000000) (User seeded_store)"
    by (simp add: seeded_store_def guest_email_def)
  have known: "authMiddleware example_libs (Some ''Bearer tok.user'') =
        Inr \<lparr>jwt_id = 3, jwt_role = ''user'', jwt_name = ''Asha''\<rparr> \<and>
      User_findById (jwt_id \<lparr>jwt_id = 3, jwt_role = ''user'', jwt_name = ''Asha''\<rparr>) registered_store =
        Some (last (User registered_store))"
    by (simp add: auth_user User_findById_def registered_store_def asha_def seeded_store_def)
  have edits: "list_all (\<lambda>c. catalog_mutation (snd (snd c))) example_catalog_edits"
    by (simp add: example_catalog_edits_def)
  note guest = checkout_persists_submitted_order[OF items,
      where s = seeded_store and now = 1700000000000 and L = example_libs and rnd = "''k3x9''"
        and L' = example_libs and calls = example_catalog_edits,
      THEN conjunct1, rule_format, OF fresh]
  note authd = checkout_persists_submitted_order[OF items,
      where s = registered_store and now = 1700000000000 and L = example_libs
        and auth = "Some ''Bearer tok.user''" and L' = example_libs
        and calls = example_catalog_edits,
      THEN conjunct2, THEN conjunct1, rule_format, OF known]
  have unknown: "authMiddleware example_libs (Some ''Bearer tok.user'') =
        Inr \<lparr>jwt_id = 3, jwt_role = ''user'', jwt_name = ''Asha''\<rparr> \<and>
      User_findById (jwt_id \<lparr>jwt_id = 3, jwt_role = ''user'', jwt_name = ''Asha''\<rparr>)
        (seeded_store\<lparr>Order := Order ordered_store\<rparr>) = None"
    by (simp add: auth_user User_findById_def seeded_store_def)
  note gone = checkout_persists_submitted_order[OF items,
      where s = "seeded_store\<lparr>Order := Order ordered_store\<rparr>" and now = 1700000000000
        and L = example_libs and auth = "Some ''Bearer tok.user''",
      THEN conjunct2, THEN conjunct2, rule_format, OF unknown]
  from guest authd edits tot have "(\<exists>ord s'. placeGuestOrder example_libs 1700000000000 ''k3x9''
          example_checkout seeded_store = ((201, SuccessOrder (order_id ord)), s') \<and>
      Order s' = Order seeded_store @ [ord] \<and>
      order_items ord = [?rice] \<and>
      order_total ord = Some 180 \<and>
      order_deliveryAddress ord = co_deliveryAddress example_checkout \<and>
      Order (admin_run example_libs example_catalog_edits s') = Order s') \<and>
   (\<exists>ord s'. orders_post example_libs (Some ''Bearer tok.user'') 1700000000000 example_checkout
        registered_store = ((201, SuccessOrder (order_id ord)), s') \<and>
      Order s' = Order registered_store @ [ord] \<and>
      order_items ord = [?rice] \<and>
      order_total ord = Some 180 \<and>
      order_deliveryAddress ord = co_deliveryAddress example_checkout \<and>
      Order (admin_run example_libs example_catalog_edits s') = Order s')"
    by simp blast
  with gone show ?thesis
    by (intro conjI) simp_all
qed


text \<open>
  Claim C1 as worded promises 201 for every checkout with a non-empty item list. An
  authenticated checkout whose token verifies but whose account is not in the store
  answers 404 and stores no order.
\<close>

theorem checkout_unknown_account_counterexample:
  "co_items example_checkout \<noteq> None \<and> co_items example_checkout \<noteq> Some [] \<and>
   orders_post example_libs (Some ''Bearer tok.user'') 1700000000000 example_checkout seeded_store
     = ((404, Err ''User not found''), seeded_store)"
  by (simp add: orders_post_def auth_route_def orders_handler_def auth_user User_findById_def
      example_checkout_def seeded_store_def)



section \<open>The admin guard\<close>

text \<open>
  Claim C3. On every \<^verbatim>\<open>/api/admin/*\<close> route, whatever the guarded handler \<open>h\<close> is:
  without an \<^verbatim>\<open>Authorization\<close> header (or with an empty one) the response is 401;
  with a header whose second space-separated part is missing or fails \<^verbatim>\<open>jwt.verify\<close>
  (malformed or expired) the response is 401; with a token that verifies to a payload
  whose role is not \<^verbatim>\<open>admin\<close> the response is 403. In each case the state is unchanged and
  the result does not depend on the handler, which is not run. In particular a token
  issued for an account whose role is not \<^verbatim>\<open>admin\<close>, sent as \<^verbatim>\<open>Bearer <token>\<close> while it
  verifies, gets 403 on every admin request \<open>r\<close>.
\<close>

theorem admin_guard:
  "(\<not> truthy auth \<longrightarrow>
      admin_route L auth h s = ((401, Err ''No token''), s) \<and>
      admin_api L auth now r s = ((401, Err ''No token''), s)) \<and>
   (auth = Some a \<and> a \<noteq> [] \<and>
      (bearer_token a = None \<or> (\<exists>t. bearer_token a = Some t \<and> jwt_verify L t = None)) \<longrightarrow>
      admin_route L auth h s = ((401, Err ''Invalid token''), s) \<and>
      admin_api L auth now r s = ((401, Err ''Invalid token''), s)) \<and>
   (auth = Some a \<and> a \<noteq> [] \<and> bearer_token a = Some t \<and> jwt_verify L t = Some u \<and>
      jwt_role u \<noteq> ''admin'' \<longrightarrow>
      admin_route L auth h s = ((403, Err ''Admin only''), s) \<and>
      admin_api L auth now r s = ((403, Err ''Admin only''), s)) \<and>
   (user_role user \<noteq> ''admin'' \<and> CHR '' '' \<notin> set (issue_token L user) \<and>
      jwt_verify L (issue_token L user) =
        Some \<lparr>jwt_id = user_id user, jwt_role = user_role user, jwt_name = user_name user\<rparr> \<longrightarrow>
      admin_api L (Some (''Bearer '' @ issue_token L user)) now r s = ((403, Err ''Admin only''), s))"
proof (intro conjI impI)
  assume "\<not> truthy auth"
  then show "admin_route L auth h s = ((401, Err ''No token''), s)"
    and "admin_api L auth now r s = ((401, Err ''No token''), s)"
    by (simp_all add: admin_api_def admin_route_no_token)
next
  assume "auth = Some a \<and> a \<noteq> [] \<and>
      (bearer_token a = None \<or> (\<exists>t. bearer_token a = Some t \<and> jwt_verify L t = None))"
  then show "admin_route L auth h s = ((401, Err ''Invalid token''), s)"
    and "admin_api L auth now r s = ((401, Err ''Invalid token''), s)"
    unfolding admin_api_def by (blast intro: admin_route_invalid)+
next
  assume "auth = Some a \<and> a \<noteq> [] \<and> bearer_token a = Some t \<and> jwt_verify L t = Some u \<and>
      jwt_role u \<noteq> ''admin''"
  then show "admin_route L auth h s = ((403, Err ''Admin only''), s)"
    and "admin_api L auth now r s = ((403, Err ''Admin only''), s)"
    unfolding admin_api_def by (blast intro: admin_route_forbidden)+
next
  assume a: "user_role user \<noteq> ''admin'' \<and> CHR '' '' \<notin> set (issue_token L user) \<and>
      jwt_verify L (issue_token L user) =
        Some \<lparr>jwt_id = user_id user, jwt_role = user_role user, jwt_name = user_name user\<rparr>"
  then have "bearer_token (''Bearer '' @ issue_token L user) = Some (issue_token L user)"
    by (intro bearer_token_Bearer) simp
  with a show "admin_api L (Some (''Bearer '' @ issue_token L user)) now r s = ((403, Err ''Admin only''), s)"
    unfolding admin_api_def by (intro admin_route_forbidden[where a="''Bearer '' @ issue_token L user"]) auto
qed


theorem admin_guard_witness:
  "admin_api example_libs None 1700000000000 (DeleteOrder (ObjectIdOf 5)) seeded_store
     = ((401, Err ''No token''), seeded_store) \<and>
   admin_api example_libs (Some ''Bearer'') 1700000000000 (DeleteProduct (ObjectIdOf 0)) seeded_store
     = ((401, Err ''Invalid token''), seeded_store) \<and>
   admin_api example_libs (Some ''Bearer tok.expired'') 1700000000000 (DeleteProduct (ObjectIdOf 0)) seeded_store
     = ((401, Err ''Invalid token''), seeded_store) \<and>
   admin_api example_libs (Some ''Bearer tok.user'') 1700000000000 (DeleteProduct (ObjectIdOf 0)) seeded_store
     = ((403, Err ''Admin only''), seeded_store) \<and>
   admin_api example_libs
       (Some (''Bearer '' @ issue_token example_libs (last (User registered_store))))
       1700000000000 GetOrders registered_store
     = ((403, Err ''Admin only''), registered_store)"
proof -
  let ?asha = "last (User registered_store)"
  have none: "\<not> truthy None"
    by simp
  have missing: "Some ''Bearer'' = Some ''Bearer'' \<and> ''Bearer'' \<noteq> [] \<and>
      (bearer_token ''Bearer'' = None \<or>
       (\<exists>t. bearer_token ''Bearer'' = Some t \<and> jwt_verify example_libs t = None))"
    by (simp add: bearer_token_def at_index_def)
  have expired: "Some ''Bearer tok.expired'' = Some ''Bearer tok.expired'' \<and>
      ''Bearer tok.expired'' \<noteq> [] \<and>
      (bearer_token ''Bearer tok.expired'' = None \<or>
       (\<exists>t. bearer_token ''Bearer tok.expired'' = Some t \<and> jwt_verify example_libs t = None))"
    by (simp add: bearer_token_def at_index_def example_libs_def)
  have customer: "Some ''Bearer tok.user'' = Some ''Bearer tok.user'' \<and>
      ''Bearer tok.user'' \<noteq> [] \<and> bearer_token ''Bearer tok.user'' = Some ''tok.user'' \<and>
      jwt_verify example_libs ''tok.user'' =
        Some \<lparr>jwt_id = 3, jwt_role = ''user'', jwt_name = ''Asha''\<rparr> \<and>
      jwt_role \<lparr>jwt_id = 3, jwt_role = ''user'', jwt_name = ''Asha''\<rparr> \<noteq> ''admin''"
    by (simp add: bearer_token_def at_index_def example_libs_def)
  have issued: "user_role ?asha \<noteq> ''admin'' \<and>
      CHR '' '' \<notin> set (issue_token example_libs ?asha) \<and>
      jwt_verify example_libs (issue_token example_libs ?asha) =
        Some \<lparr>jwt_id = user_id ?asha, jwt_role = user_role ?asha, jwt_name = user_name ?asha\<rparr>"
    by (simp add: registered_store_def asha_def seeded_store_def issue_token_def example_libs_def)
  note g = admin_guard[where L = example_libs and now = 1700000000000]
  note a = g[where auth = None and r = "DeleteOrder (ObjectIdOf 5)" and s = seeded_store,
      THEN conjunct1, rule_format, OF none, THEN conjunct2]
  note b = g[where auth = "Some ''Bearer''" and a = "''Bearer''" and r = "DeleteProduct (ObjectIdOf 0)"
        and s = seeded_store,
      THEN conjunct2, THEN conjunct1, rule_format, OF missing, THEN conjunct2]
  note c = g[where auth = "Some ''Bearer tok.expired''" and a = "''Bearer tok.expired''"
        and r = "DeleteProduct (ObjectIdOf 0)" and s = seeded_store,
      THEN conjunct2, THEN conjunct1, rule_format, OF expired, THEN conjunct2]
  note d = g[where auth = "Some ''Bearer tok.user''" and a = "''Bearer tok.user''"
        and r = "DeleteProduct (ObjectIdOf 0)" and s = seeded_store,
      THEN conjunct2, THEN conjunct2, THEN conjunct1, rule_format, OF customer, THEN conjunct2]
  note e = g[where user = ?asha and r = GetOrders and s = registered_store,
      THEN conjunct2, THEN conjunct2, THEN conjunct2, rule_format, OF issued]
  from a b c d e show ?thesis
    by (intro conjI)
qed

section \<open>The guest account's placeholder email\<close>

text \<open>
  Claim C4 at a failing input. The placeholder email is \<^verbatim>\<open>guest+<Date.now()>@local\<close>, so
  two guest checkouts served in the same millisecond generate the same email. On the
  seeded store the first one answers 201; the second one is rejected by the unique
  index on \<^verbatim>\<open>email\<close>, answers 500, and neither an account nor an order is stored for it.
\<close>

theorem guest_email_collision:
  "fst (placeGuestOrder example_libs 1700000000000 ''k3x9'' example_checkout seeded_store)
     = (201, SuccessOrder 4) \<and>
   placeGuestOrder example_libs 1700000000000 ''p0q7'' example_checkout
       (snd (placeGuestOrder example_libs 1700000000000 ''k3x9'' example_checkout seeded_store))
     = ((500, Err ''E11000 duplicate key error''),
        snd (placeGuestOrder example_libs 1700000000000 ''k3x9'' example_checkout seeded_store))"
proof -
  let ?rice = "\<lparr>item_productId = 0, item_name = ''Rice'', item_price = 90, item_quantity = 2\<rparr>"
  have items: "co_items example_checkout = Some [?rice]" "[?rice] \<noteq> []"
    by (simp_all add: example_checkout_def)
  have fresh: "\<not> list_ex (\<lambda>u. user_email u = guest_email 1700000000000) (User seeded_store)"
    by (simp add: seeded_store_def guest_email_def)
  note first = placeGuestOrder_placed[OF items fresh, of example_libs "''k3x9''"]
  have taken: "list_ex (\<lambda>u. user_email u = guest_email 1700000000000)
      (User (snd (placeGuestOrder example_libs 1700000000000 ''k3x9'' example_checkout seeded_store)))"
    by (simp add: first guest_account_def)
  have nxt: "next_oid seeded_store = 3"
    by (simp add: seeded_store_def)
  have "fst (placeGuestOrder example_libs 1700000000000 ''k3x9'' example_checkout seeded_store)
      = (201, SuccessOrder 4)"
    by (simp add: first nxt)
  with placeGuestOrder_duplicate[OF items taken, of example_libs "''p0q7''"] show ?thesis
    by (intro conjI)
qed

section \<open>A checkout without items\<close>

text \<open>
  Claim C5. A checkout whose \<^verbatim>\<open>items\<close> is missing or is the empty list answers 400
  (\<^verbatim>\<open>No items\<close>) and leaves the whole state, so also the order collection, as it was:
  the guest route always, the authenticated route once \<^verbatim>\<open>authMiddleware\<close> has accepted the
  token.
\<close>

theorem checkout_without_items_rejected:
  assumes "co_items b = None \<or> co_items b = Some []"
  shows "placeGuestOrder L now rnd b s = ((400, Err ''No items''), s) \<and>
     (authMiddleware L auth = Inr u \<longrightarrow>
        orders_post L auth now b s = ((400, Err ''No items''), s))"
  using assms
  by (auto simp: placeGuestOrder_def orders_post_authenticated orders_handler_def)

theorem checkout_without_items_rejected_witness:
  "placeGuestOrder example_libs 1700000000000 ''k3x9'' (example_checkout\<lparr>co_items := None\<rparr>)
       seeded_store = ((400, Err ''No items''), seeded_store) \<and>
   placeGuestOrder example_libs 1700000000000 ''k3x9'' (example_checkout\<lparr>co_items := Some []\<rparr>)
       seeded_store = ((400, Err ''No items''), seeded_store) \<and>
   orders_post example_libs (Some ''Bearer tok.user'') 1700000000000
       (example_checkout\<lparr>co_items := Some []\<rparr>) registered_store
     = ((400, Err ''No items''), registered_store)"
proof -
  have missing: "co_items (example_checkout\<lparr>co_items := None\<rparr>) = None \<or>
      co_items (example_checkout\<lparr>co_items := None\<rparr>) = Some []"
    by simp
  have empty: "co_items (example_checkout\<lparr>co_items := Some []\<rparr>) = None \<or>
      co_items (example_checkout\<lparr>co_items := Some []\<rparr>) = Some []"
    by simp
  note a = checkout_without_items_rejected[OF missing, THEN conjunct1]
  note b = checkout_without_items_rejected[OF empty, THEN conjunct1]
  note c = checkout_without_items_rejected[OF empty, THEN conjunct2, rule_format, OF auth_user]
  from a b c show ?thesis
    by (intro conjI)
qed

section \<open>Admin deletes\<close>

text \<open>
  Claim C6, as the code has it. For an admin (a token that verifies with role
  \<^verbatim>\<open>admin\<close>) and an id that is a well-formed ObjectId:
  \<^verbatim>\<open>DELETE /api/admin/orders/:id\<close> answers 200 \<^verbatim>\<open>{success: true}\<close> whether or not an
  order has the id; when none has, the state is unchanged, and when one has, the first
  such order is removed whatever its status is. \<^verbatim>\<open>DELETE /api/admin/products/:id\<close>
  answers 404 (\<^verbatim>\<open>Product not found\<close>) and changes nothing when no product has the id,
  and answers 200 and removes the product when one has. With an id that is not a
  well-formed ObjectId both routes answer 500 and change nothing.
\<close>

theorem admin_deletes:
  assumes "authMiddleware L auth = Inr u" and "jwt_role u = ''admin''"
  shows
    "fst (admin_api L auth now (DeleteOrder (ObjectIdOf i)) s) = (200, Success) \<and>
     (Order_findById i s = None \<longrightarrow> snd (admin_api L auth now (DeleteOrder (ObjectIdOf i)) s) = s) \<and>
     (Order_findById i s = Some ord \<longrightarrow>
        (\<exists>before after. Order s = before @ ord # after \<and>
           find (\<lambda>d. order_id d = i) before = None \<and>
           snd (admin_api L auth now (DeleteOrder (ObjectIdOf i)) s) = s\<lparr>Order := before @ after\<rparr>)) \<and>
     (Product_findById j s = None \<longrightarrow>
        admin_api L auth now (DeleteProduct (ObjectIdOf j)) s = ((404, Err ''Product not found''), s)) \<and>
     (Product_findById j s = Some p \<longrightarrow>
        (\<exists>before after. Product s = before @ p # after \<and>
           find (\<lambda>d. product_id d = j) before = None \<and>
           admin_api L auth now (DeleteProduct (ObjectIdOf j)) s =
             ((200, Success), s\<lparr>Product := before @ after\<rparr>))) \<and>
     fst (fst (admin_api L auth now (DeleteOrder (Malformed raw)) s)) = 500 \<and>
     snd (admin_api L auth now (DeleteOrder (Malformed raw)) s) = s \<and>
     fst (fst (admin_api L auth now (DeleteProduct (Malformed raw)) s)) = 500 \<and>
     snd (admin_api L auth now (DeleteProduct (Malformed raw)) s) = s"
proof (intro conjI impI)
  show "fst (admin_api L auth now (DeleteOrder (ObjectIdOf i)) s) = (200, Success)"
    by (simp add: admin_api_admin[OF assms] admin_orders_delete_def)
  show "fst (fst (admin_api L auth now (DeleteOrder (Malformed raw)) s)) = 500"
    and "snd (admin_api L auth now (DeleteOrder (Malformed raw)) s) = s"
    by (simp_all add: admin_api_admin[OF assms] admin_orders_delete_def)
  show "fst (fst (admin_api L auth now (DeleteProduct (Malformed raw)) s)) = 500"
    and "snd (admin_api L auth now (DeleteProduct (Malformed raw)) s) = s"
    by (simp_all add: admin_api_admin[OF assms] admin_products_delete_def)
next
  assume "Order_findById i s = None"
  then show "snd (admin_api L auth now (DeleteOrder (ObjectIdOf i)) s) = s"
    by (simp add: admin_api_admin[OF assms] admin_orders_delete_def Order_findById_def
        delete_first_none)
next
  assume "Order_findById i s = Some ord"
  then obtain before after where "Order s = before @ ord # after"
    "delete_first (\<lambda>d. order_id d = i) (Order s) = before @ after"
    "find (\<lambda>d. order_id d = i) before = None"
    unfolding Order_findById_def by (blast dest: delete_first_some)
  then show "\<exists>before after. Order s = before @ ord # after \<and>
           find (\<lambda>d. order_id d = i) before = None \<and>
           snd (admin_api L auth now (DeleteOrder (ObjectIdOf i)) s) = s\<lparr>Order := before @ after\<rparr>"
    by (intro exI[of _ before] exI[of _ after])
       (simp add: admin_api_admin[OF assms] admin_orders_delete_def)
next
  assume "Product_findById j s = None"
  then show "admin_api L auth now (DeleteProduct (ObjectIdOf j)) s = ((404, Err ''Product not found''), s)"
    by (simp add: admin_api_admin[OF assms] admin_products_delete_def)
next
  assume found: "Product_findById j s = Some p"
  then obtain before after where "Product s = before @ p # after"
    "delete_first (\<lambda>d. product_id d = j) (Product s) = before @ after"
    "find (\<lambda>d. product_id d = j) before = None"
    unfolding Product_findById_def by (blast dest: delete_first_some)
  with found show "\<exists>before after. Product s = before @ p # after \<and>
           find (\<lambda>d. product_id d = j) before = None \<and>
           admin_api L auth now (DeleteProduct (ObjectIdOf j)) s =
             ((200, Success), s\<lparr>Product := before @ after\<rparr>)"
    by (intro exI[of _ before] exI[of _ after])
       (simp add: admin_api_admin[OF assms] admin_products_delete_def)
qed

theorem admin_deletes_witness:
  "order_status (hd (Order ordered_store)) = ''pending'' \<and>
   admin_api example_libs (Some ''Bearer tok.admin'') 1700000000000 (DeleteOrder (ObjectIdOf 4)) ordered_store
     = ((200, Success), ordered_store\<lparr>Order := []\<rparr>) \<and>
   admin_api example_libs (Some ''Bearer tok.admin'') 1700000000000 (DeleteOrder (ObjectIdOf 9)) ordered_store
     = ((200, Success), ordered_store) \<and>
   admin_api example_libs (Some ''Bearer tok.admin'') 1700000000000 (DeleteProduct (ObjectIdOf 7)) ordered_store
     = ((404, Err ''Product not found''), ordered_store) \<and>
   admin_api example_libs (Some ''Bearer tok.admin'') 1700000000000 (DeleteProduct (ObjectIdOf 0)) ordered_store
     = ((200, Success), ordered_store\<lparr>Product := tl (Product ordered_store)\<rparr>) \<and>
   fst (fst (admin_api example_libs (Some ''Bearer tok.admin'') 1700000000000
               (DeleteOrder (Malformed ''not-an-id'')) ordered_store)) = 500 \<and>
   snd (admin_api example_libs (Some ''Bearer tok.admin'') 1700000000000
          (DeleteOrder (Malformed ''not-an-id'')) ordered_store) = ordered_store \<and>
   fst (fst (admin_api example_libs (Some ''Bearer tok.admin'') 1700000000000
               (DeleteProduct (Malformed ''not-an-id'')) ordered_store)) = 500 \<and>
   snd (admin_api example_libs (Some ''Bearer tok.admin'') 1700000000000
          (DeleteProduct (Malformed ''not-an-id'')) ordered_store) = ordered_store"
proof -
  let ?del = "\<lambda>r. admin_api example_libs (Some ''Bearer tok.admin'') 1700000000000 r ordered_store"
  have admin: "jwt_role \<lparr>jwt_id = 2, jwt_role = ''admin'', jwt_name = ''Admin''\<rparr> = ''admin''"
    by simp
  note d = admin_deletes[OF auth_admin admin, where s = ordered_store and now = 1700000000000]
  have pending: "order_status (hd (Order ordered_store)) = ''pending''"
    by (simp add: ordered_store_def)
  have o4: "Order_findById 4 ordered_store = Some (hd (Order ordered_store))"
    by (simp add: Order_findById_def ordered_store_def)
  have o9: "Order_findById 9 ordered_store = None"
    by (simp add: Order_findById_def ordered_store_def)
  have p7: "Product_findById 7 ordered_store = None"
    by (simp add: Product_findById_def ordered_store_def registered_store_def asha_def seeded_store_def)
  have p0: "Product_findById 0 ordered_store = Some (hd (Product ordered_store))"
    by (simp add: Product_findById_def ordered_store_def registered_store_def asha_def seeded_store_def)
  from d[where i = 4, THEN conjunct2, THEN conjunct2, THEN conjunct1, rule_format, OF o4]
  obtain before after where split: "Order ordered_store = before @ hd (Order ordered_store) # after"
    and first: "find (\<lambda>d. order_id d = 4) before = None"
    and gone: "snd (?del (DeleteOrder (ObjectIdOf 4))) = ordered_store\<lparr>Order := before @ after\<rparr>"
    by blast
  have "delete_first (\<lambda>d. order_id d = 4) (before @ hd (Order ordered_store) # after)
      = before @ after"
    using first by (rule split_at_first) (simp add: ordered_store_def)
  with split have "before @ after = delete_first (\<lambda>d. order_id d = 4) (Order ordered_store)"
    by simp
  also have "\<dots> = []"
    by (simp add: ordered_store_def)
  finally have "snd (?del (DeleteOrder (ObjectIdOf 4))) = ordered_store\<lparr>Order := []\<rparr>"
    using gone by simp
  with d[where i = 4, THEN conjunct1]
  have a: "?del (DeleteOrder (ObjectIdOf 4)) = ((200, Success), ordered_store\<lparr>Order := []\<rparr>)"
    by (cases "?del (DeleteOrder (ObjectIdOf 4))") simp
  from d[where i = 9, THEN conjunct1]
    d[where i = 9, THEN conjunct2, THEN conjunct1, rule_format, OF o9]
  have b: "?del (DeleteOrder (ObjectIdOf 9)) = ((200, Success), ordered_store)"
    by (cases "?del (DeleteOrder (ObjectIdOf 9))") simp
  note c = d[where j = 7, THEN conjunct2, THEN conjunct2, THEN conjunct2, THEN conjunct1,
      rule_format, OF p7]
  from d[where j = 0, THEN conjunct2, THEN conjunct2, THEN conjunct2, THEN conjunct2,
      THEN conjunct1, rule_format, OF p0]
  obtain before after where split: "Product ordered_store = before @ hd (Product ordered_store) # after"
    and first: "find (\<lambda>d. product_id d = 0) before = None"
    and res: "?del (DeleteProduct (ObjectIdOf 0)) = ((200, Success), ordered_store\<lparr>Product := before @ after\<rparr>)"
    by blast
  have "delete_first (\<lambda>d. product_id d = 0) (before @ hd (Product ordered_store) # after)
      = before @ after"
    using first
    by (rule split_at_first) (simp add: ordered_store_def registered_store_def asha_def seeded_store_def)
  with split have "before @ after = delete_first (\<lambda>d. product_id d = 0) (Product ordered_store)"
    by simp
  also have "\<dots> = tl (Product ordered_store)"
    by (simp add: ordered_store_def registered_store_def asha_def seeded_store_def)
  finally have e: "?del (DeleteProduct (ObjectIdOf 0)) =
      ((200, Success), ordered_store\<lparr>Product := tl (Product ordered_store)\<rparr>)"
    using res by simp
  note m = d[where raw = "''not-an-id''", THEN conjunct2, THEN conjunct2, THEN conjunct2,
      THEN conjunct2, THEN conjunct2]
  from pending a b c e m show ?thesis
    by (intro conjI) simp_all
qed


text \<open>
  Claim C6 as worded has the product delete succeed whether or not the product exists.
  On the seeded store no product has id 7, and the admin's delete of it answers 404.
\<close>

theorem product_delete_missing_counterexample:
  "Product_findById 7 seeded_store = None \<and>
   admin_api example_libs (Some ''Bearer tok.admin'') 1700000000000 (DeleteProduct (ObjectIdOf 7)) seeded_store
     = ((404, Err ''Product not found''), seeded_store)"
  by (simp add: admin_api_admin[OF auth_admin] admin_products_delete_def Product_findById_def
      seeded_store_def)


section \<open>Admin product update\<close>

text \<open>
  Claim C7. An admin's \<^verbatim>\<open>PUT /api/admin/products/:id\<close> on an existing product leaves
  every field whose form field was not sent at its prior value (name, description, price,
  category, unit), leaves the image URL at its prior value when no image file was sent,
  never changes the id or the creation time, and leaves every other product, the
  accounts and the orders as they were; this holds whether the request succeeds or fails
  (upload rejected, price not a number). When the response is 200 it carries the updated
  product, whose sent text fields have the sent values, whose price is the number sent and
  whose image is the uploaded file's URL.
\<close>

theorem product_update_keeps_omitted_fields:
  assumes "authMiddleware L auth = Inr u" and "jwt_role u = ''admin''"
    and "Product_findById i s = Some p"
  shows "\<exists>p'. Product_findById i (snd (admin_api L auth now (PutProduct (ObjectIdOf i) form req_file) s)) = Some p' \<and>
     product_id p' = product_id p \<and> product_createdAt p' = product_createdAt p \<and>
     (pf_name form = None \<longrightarrow> product_name p' = product_name p) \<and>
     (pf_description form = None \<longrightarrow> product_description p' = product_description p) \<and>
     (pf_price form = None \<longrightarrow> product_price p' = product_price p) \<and>
     (pf_category form = None \<longrightarrow> product_category p' = product_category p) \<and>
     (pf_unit form = None \<longrightarrow> product_unit p' = product_unit p) \<and>
     (req_file = None \<longrightarrow> product_image p' = product_image p) \<and>
     (\<forall>j. j \<noteq> i \<longrightarrow>
        Product_findById j (snd (admin_api L auth now (PutProduct (ObjectIdOf i) form req_file) s))
          = Product_findById j s) \<and>
     User (snd (admin_api L auth now (PutProduct (ObjectIdOf i) form req_file) s)) = User s \<and>
     Order (snd (admin_api L auth now (PutProduct (ObjectIdOf i) form req_file) s)) = Order s \<and>
     (fst (fst (admin_api L auth now (PutProduct (ObjectIdOf i) form req_file) s)) = 200 \<longrightarrow>
        fst (admin_api L auth now (PutProduct (ObjectIdOf i) form req_file) s) = (200, ProductJson p') \<and>
        (\<forall>v. pf_name form = Some v \<longrightarrow> product_name p' = v) \<and>
        (\<forall>v. pf_description form = Some v \<longrightarrow> product_description p' = Some v) \<and>
        (\<forall>v. pf_category form = Some v \<longrightarrow> product_category p' = Some v) \<and>
        (\<forall>v. pf_unit form = Some v \<longrightarrow> product_unit p' = v) \<and>
        (\<forall>t v. pf_price form = Some t \<and> t \<noteq> [] \<and> toNumber L t = Some v \<longrightarrow>
           product_price p' = v) \<and>
        (\<forall>path url. req_file = Some path \<and> cloudinary_upload L path = Inr url \<longrightarrow>
           product_image p' = Some (or_default url [])))"
proof -
  let ?r = "admin_products_put L (ObjectIdOf i) form req_file s"
  have api: "admin_api L auth now (PutProduct (ObjectIdOf i) form req_file) s = ?r"
    using assms(1,2) by (simp add: admin_api_admin)
  from admin_products_put_outcome[OF assms(3), where L = L and form = form and req_file = req_file]
  consider (failed) "fst (fst ?r) = 500" "snd ?r = s"
    | (updated) upd where "upload_into L req_file (build_update L form) = Inr upd"
        "?r = ((200, ProductJson (apply_update upd p)),
               s\<lparr>Product := update_first (\<lambda>d. product_id d = i) (apply_update upd) (Product s)\<rparr>)"
    by blast
  then show ?thesis
  proof cases
    case failed
    with assms(3) show ?thesis
      unfolding api by (intro exI[of _ p]) simp
  next
    case updated
    note f = upload_into_fields[OF updated(1)]
    have found: "Product_findById i (snd ?r) = Some (apply_update upd p)"
      using updated(2) assms(3) by (simp add: Product_findById_updated)
    have others: "\<forall>j. j \<noteq> i \<longrightarrow> Product_findById j (snd ?r) = Product_findById j s"
      using updated(2) by (simp add: Product_findById_other)
    have kept: "product_id (apply_update upd p) = product_id p"
      "product_createdAt (apply_update upd p) = product_createdAt p"
      "pf_name form = None \<longrightarrow> product_name (apply_update upd p) = product_name p"
      "pf_description form = None \<longrightarrow>
         product_description (apply_update upd p) = product_description p"
      "pf_price form = None \<longrightarrow> product_price (apply_update upd p) = product_price p"
      "pf_category form = None \<longrightarrow> product_category (apply_update upd p) = product_category p"
      "pf_unit form = None \<longrightarrow> product_unit (apply_update upd p) = product_unit p"
      "req_file = None \<longrightarrow> product_image (apply_update upd p) = product_image p"
      using f by (simp_all add: apply_update_def build_update_def)
    have set: "\<forall>v. pf_name form = Some v \<longrightarrow> product_name (apply_update upd p) = v"
      "\<forall>v. pf_description form = Some v \<longrightarrow> product_description (apply_update upd p) = Some v"
      "\<forall>v. pf_category form = Some v \<longrightarrow> product_category (apply_update upd p) = Some v"
      "\<forall>v. pf_unit form = Some v \<longrightarrow> product_unit (apply_update upd p) = v"
      "\<forall>t v. pf_price form = Some t \<and> t \<noteq> [] \<and> toNumber L t = Some v \<longrightarrow>
         product_price (apply_update upd p) = v"
      using f by (simp_all add: apply_update_def build_update_def)
    have image: "\<forall>path url. req_file = Some path \<and> cloudinary_upload L path = Inr url \<longrightarrow>
        product_image (apply_update upd p) = Some (or_default url [])"
      using updated(1) by (auto simp: upload_into_def apply_update_def)
    have rest: "User (snd ?r) = User s" "Order (snd ?r) = Order s"
      "fst ?r = (200, ProductJson (apply_update upd p))"
      using updated(2) by simp_all
    show ?thesis
      unfolding api using found others kept set image rest
      by (intro exI[of _ "apply_update upd p"]) simp
  qed
qed


theorem product_update_keeps_omitted_fields_witness:
  "(\<exists>p'. Product_findById 0
            (snd (admin_api example_libs (Some ''Bearer tok.admin'') 1700000005000
                    (PutProduct (ObjectIdOf 0) price_only_form None) seeded_store)) = Some p' \<and>
      fst (admin_api example_libs (Some ''Bearer tok.admin'') 1700000005000
             (PutProduct (ObjectIdOf 0) price_only_form None) seeded_store) = (200, ProductJson p') \<and>
      product_price p' = 95 \<and>
      product_name p' = ''Rice'' \<and>
      product_description p' = Some ''Basmati rice'' \<and>
      product_category p' = Some ''Essentials'' \<and>
      product_unit p' = ''1 kg packet'' \<and>
      product_image p' = None \<and>
      Product_findById 1
            (snd (admin_api example_libs (Some ''Bearer tok.admin'') 1700000005000
                    (PutProduct (ObjectIdOf 0) price_only_form None) seeded_store))
        = Product_findById 1 seeded_store) \<and>
   (\<exists>p'. Product_findById 0
            (snd (admin_api example_libs (Some ''Bearer tok.admin'') 1700000005000
                    (PutProduct (ObjectIdOf 0) rename_form (Some ''rice.png'')) seeded_store)) = Some p' \<and>
      product_name p' = ''Brown rice'' \<and>
      product_price p' = 90 \<and>
      product_description p' = Some ''Basmati rice'' \<and>
      product_image p' = Some ''https://cdn/rice.png'')"
proof -
  let ?rice = "hd (Product seeded_store)"
  let ?reprice = "admin_api example_libs (Some ''Bearer tok.admin'') 1700000005000
      (PutProduct (ObjectIdOf 0) price_only_form None) seeded_store"
  let ?rename = "admin_api example_libs (Some ''Bearer tok.admin'') 1700000005000
      (PutProduct (ObjectIdOf 0) rename_form (Some ''rice.png'')) seeded_store"
  have admin: "jwt_role \<lparr>jwt_id = 2, jwt_role = ''admin'', jwt_name = ''Admin''\<rparr> = ''admin''"
    by simp
  have p0: "Product_findById 0 seeded_store = Some ?rice"
    by (simp add: Product_findById_def seeded_store_def)
  have rice: "product_name ?rice = ''Rice''"
    "product_description ?rice = Some ''Basmati rice''"
    "product_category ?rice = Some ''Essentials''"
    "product_unit ?rice = ''1 kg packet''"
    "product_image ?rice = None"
    "product_price ?rice = 90"
    by (simp_all add: seeded_store_def)
  note t = product_update_keeps_omitted_fields[OF auth_admin admin p0,
      where now = 1700000005000]
  have ok: "fst (fst ?reprice) = 200"
  proof -
    have "?reprice = admin_products_put example_libs (ObjectIdOf 0) price_only_form None seeded_store"
      by (simp add: admin_api_admin[OF auth_admin admin])
    also have "fst (fst \<dots>) = 200"
      by (simp add: admin_products_put_def upload_into_def build_update_def price_only_form_def
          example_libs_def Product_findByIdAndUpdate_def Product_findById_def seeded_store_def)
    finally show ?thesis .
  qed
  have sent: "pf_price price_only_form = Some ''95''" "toNumber example_libs ''95'' = Some 95"
    by (simp_all add: price_only_form_def example_libs_def)
  have omitted: "pf_name price_only_form = None" "pf_description price_only_form = None"
    "pf_category price_only_form = None" "pf_unit price_only_form = None"
    by (simp_all add: price_only_form_def)
  from t[where form = price_only_form and req_file = None] ok sent omitted rice
  have first: "\<exists>p'. Product_findById 0 (snd ?reprice) = Some p' \<and>
      fst ?reprice = (200, ProductJson p') \<and>
      product_price p' = 95 \<and>
      product_name p' = ''Rice'' \<and>
      product_description p' = Some ''Basmati rice'' \<and>
      product_category p' = Some ''Essentials'' \<and>
      product_unit p' = ''1 kg packet'' \<and>
      product_image p' = None \<and>
      Product_findById 1 (snd ?reprice) = Product_findById 1 seeded_store"
    apply (elim exE conjE)
    subgoal for p'
      by (intro exI[of _ p']) simp
    done
  have renamed: "pf_name rename_form = Some ''Brown rice''" "pf_price rename_form = None"
    "pf_description rename_form = None"
    by (simp_all add: rename_form_def)
  have ok2: "fst (fst ?rename) = 200"
  proof -
    have "?rename = admin_products_put example_libs (ObjectIdOf 0) rename_form (Some ''rice.png'') seeded_store"
      by (simp add: admin_api_admin[OF auth_admin admin])
    also have "fst (fst \<dots>) = 200"
      by (simp add: admin_products_put_def upload_into_def build_update_def rename_form_def
          example_libs_def Product_findByIdAndUpdate_def Product_findById_def seeded_store_def)
    finally show ?thesis .
  qed
  have uploaded: "cloudinary_upload example_libs ''rice.png'' = Inr (Some ''https://cdn/rice.png'')"
    by (simp add: example_libs_def)
  from t[where form = rename_form and req_file = "Some ''rice.png''"] ok2 renamed rice uploaded
  have second: "\<exists>p'. Product_findById 0 (snd ?rename) = Some p' \<and>
      product_name p' = ''Brown rice'' \<and>
      product_price p' = 90 \<and>
      product_description p' = Some ''Basmati rice'' \<and>
      product_image p' = Some ''https://cdn/rice.png''"
    apply (elim exE conjE)
    subgoal for p'
      by (intro exI[of _ p']) simp
    done
  from first second show ?thesis
    by (intro conjI)
qed

section \<open>Profile update\<close>

text \<open>
  Claim C8. For an authenticated account whose stored hash matches the current password
  sent, and a body with no email: when no new password is sent (or an empty one) the
  response is 200 and the whole state is unchanged, so the email and the password hash
  are; when a non-empty new password is sent, the response is 200, the account is the
  prior one with only \<^verbatim>\<open>passwordHash\<close> replaced by the hash of the new password, and
  every other account, the catalog, the orders and the subscribers are unchanged.
\<close>

theorem profile_update_frame:
  assumes "authMiddleware L auth = Inr u" and "User_findById (jwt_id u) s = Some user"
    and "prof_currentPassword b = Some cp" and "bcrypt_compare L cp (user_passwordHash user)"
    and "prof_email b = None"
  shows
    "(\<not> truthy (prof_newPassword b) \<longrightarrow>
        profile L auth b s = ((200, SuccessEmail (user_email user)), s)) \<and>
     (prof_newPassword b = Some np \<and> np \<noteq> [] \<longrightarrow>
        (\<exists>s'. profile L auth b s = ((200, SuccessEmail (user_email user)), s') \<and>
           User_findById (jwt_id u) s' = Some (user\<lparr>user_passwordHash := bcrypt_hash L np 10\<rparr>) \<and>
           (\<forall>j. j \<noteq> jwt_id u \<longrightarrow> User_findById j s' = User_findById j s) \<and>
           Product s' = Product s \<and> Order s' = Order s \<and> sseClients s' = sseClients s))"
proof (intro conjI impI)
  have cp: "or_default (prof_currentPassword b) [] = cp"
    using assms(3) by simp
  have uid: "user_id user = jwt_id u"
    using assms(2) unfolding User_findById_def by (rule find_Some_holds)
  {
    assume "\<not> truthy (prof_newPassword b)"
    then show "profile L auth b s = ((200, SuccessEmail (user_email user)), s)"
      using assms cp uid
      by (simp add: profile_authenticated profile_handler_def User_save_def User_findById_def
          update_first_same)
  }
  {
    assume np: "prof_newPassword b = Some np \<and> np \<noteq> []"
    let ?user' = "user\<lparr>user_passwordHash := bcrypt_hash L np 10\<rparr>"
    let ?s' = "s\<lparr>User := update_first (\<lambda>x. user_id x = user_id user) (\<lambda>_. ?user') (User s)\<rparr>"
    have run: "profile L auth b s = ((200, SuccessEmail (user_email user)), ?s')"
      using assms cp np
      by (simp add: profile_authenticated profile_handler_def User_save_def)
    have found: "User_findById (jwt_id u) ?s' = Some ?user'"
      using assms(2) uid by (simp add: User_findById_def find_update_first_hit)
    have others: "\<forall>j. j \<noteq> jwt_id u \<longrightarrow> User_findById j ?s' = User_findById j s"
      using uid by (simp add: User_findById_other)
    show "\<exists>s'. profile L auth b s = ((200, SuccessEmail (user_email user)), s') \<and>
           User_findById (jwt_id u) s' = Some (user\<lparr>user_passwordHash := bcrypt_hash L np 10\<rparr>) \<and>
           (\<forall>j. j \<noteq> jwt_id u \<longrightarrow> User_findById j s' = User_findById j s) \<and>
           Product s' = Product s \<and> Order s' = Order s \<and> sseClients s' = sseClients s"
      using run found others by (intro exI[of _ ?s']) simp
  }
qed


theorem profile_update_frame_witness:
  "profile example_libs (Some ''Bearer tok.user'')
       \<lparr>prof_email = None, prof_currentPassword = Some ''s3cret'', prof_newPassword = None\<rparr>
       registered_store
     = ((200, SuccessEmail ''asha@example.com''), registered_store) \<and>
   (\<exists>s'. profile example_libs (Some ''Bearer tok.user'')
              \<lparr>prof_email = None, prof_currentPassword = Some ''s3cret'',
               prof_newPassword = Some ''n3wpass''\<rparr> registered_store
            = ((200, SuccessEmail ''asha@example.com''), s') \<and>
      User_findById 3 s' = Some (asha\<lparr>user_passwordHash := ''$2a$n3wpass''\<rparr>) \<and>
      User_findById 2 s' = User_findById 2 registered_store)"
proof -
  let ?u = "\<lparr>jwt_id = 3, jwt_role = ''user'', jwt_name = ''Asha''\<rparr>"
  let ?only = "\<lparr>prof_email = None, prof_currentPassword = Some ''s3cret'',
               prof_newPassword = None\<rparr>"
  let ?change = "\<lparr>prof_email = None, prof_currentPassword = Some ''s3cret'',
               prof_newPassword = Some ''n3wpass''\<rparr>"
  have found: "User_findById (jwt_id ?u) registered_store = Some asha"
    by (simp add: registered_asha)
  have correct: "bcrypt_compare example_libs ''s3cret'' (user_passwordHash asha)"
    by (simp add: example_libs_def asha_def)
  have email: "user_email asha = ''asha@example.com''"
    by (simp add: asha_def)
  have hash: "bcrypt_hash example_libs ''n3wpass'' 10 = ''$2a$n3wpass''"
    by (simp add: example_libs_def)
  have a: "profile example_libs (Some ''Bearer tok.user'') ?only registered_store
      = ((200, SuccessEmail (user_email asha)), registered_store)"
    by (rule profile_update_frame[OF auth_user found _ correct, where b = ?only,
          THEN conjunct1, rule_format]) simp_all
  have "prof_newPassword ?change = Some ''n3wpass'' \<and> ''n3wpass'' \<noteq> []"
    by simp
  from profile_update_frame[OF auth_user found _ correct, where b = ?change,
      THEN conjunct2, rule_format, OF _ _ this]
  have b: "\<exists>s'. profile example_libs (Some ''Bearer tok.user'') ?change registered_store
        = ((200, SuccessEmail (user_email asha)), s') \<and>
      User_findById (jwt_id ?u) s'
        = Some (asha\<lparr>user_passwordHash := bcrypt_hash example_libs ''n3wpass'' 10\<rparr>) \<and>
      (\<forall>j. j \<noteq> jwt_id ?u \<longrightarrow> User_findById j s' = User_findById j registered_store) \<and>
      Product s' = Product registered_store \<and> Order s' = Order registered_store \<and>
      sseClients s' = sseClients registered_store"
    by simp
  show ?thesis
  proof (intro conjI)
    show "profile example_libs (Some ''Bearer tok.user'') ?only registered_store
        = ((200, SuccessEmail ''asha@example.com''), registered_store)"
      using a by (simp add: email)
    from b show "\<exists>s'. profile example_libs (Some ''Bearer tok.user'') ?change registered_store
          = ((200, SuccessEmail ''asha@example.com''), s') \<and>
        User_findById 3 s' = Some (asha\<lparr>user_passwordHash := ''$2a$n3wpass''\<rparr>) \<and>
        User_findById 2 s' = User_findById 2 registered_store"
      apply (elim exE conjE)
      subgoal for s'
        by (intro exI[of _ s']) (simp add: email hash)
      done
  qed
qed

section \<open>Registering an email twice\<close>

text \<open>
  Claim C9. When a registration has answered 201, a second registration with the same
  email (whatever its other fields, clock and library state) answers 400, leaves the
  state exactly as the first one left it, so no second account is created, and the
  account the first call appended is still the one found under that email. When the
  second body has a name and a password the error is \<^verbatim>\<open>Email exists\<close>.
\<close>

theorem register_same_email_twice:
  assumes "register L now1 b1 s = ((201, body1), s1)" and "reg_email b2 = reg_email b1"
  shows "fst (fst (register L' now2 b2 s1)) = 400 \<and>
     snd (register L' now2 b2 s1) = s1 \<and>
     (truthy (reg_name b2) \<and> truthy (reg_password b2) \<longrightarrow>
        fst (register L' now2 b2 s1) = (400, Err ''Email exists'')) \<and>
     (\<exists>u. User s1 = User s @ [u] \<and> reg_email b1 = Some (user_email u) \<and>
        User_findOne_email (user_email u) s1 = Some u \<and>
        User_findOne_email (user_email u) (snd (register L' now2 b2 s1)) = Some u)"
proof -
  from register_created[OF assms(1)] obtain u where
    s1: "s1 = s\<lparr>User := User s @ [u], next_oid := Suc (next_oid s)\<rparr>"
    and email: "reg_email b1 = Some (user_email u)" "user_email u \<noteq> []"
    and fresh: "User_findOne_email (user_email u) s = None"
    by blast
  have found: "User_findOne_email (user_email u) s1 = Some u"
    using fresh unfolding s1 User_findOne_email_def by (simp add: find_append_fresh)
  from email assms(2) have b2: "reg_email b2 = Some (user_email u)"
    by simp
  note second = register_existing[OF found b2, of L' now2]
  from second have same: "snd (register L' now2 b2 s1) = s1"
    by simp
  have "User s1 = User s @ [u]"
    by (simp add: s1)
  with second same found email show ?thesis
    by auto
qed


theorem register_same_email_twice_witness:
  "fst (fst (register example_libs 1 asha_registration seeded_store)) = 201 \<and>
   fst (register example_libs 2 (asha_registration\<lparr>reg_name := Some ''Mallory''\<rparr>)
          (snd (register example_libs 1 asha_registration seeded_store)))
     = (400, Err ''Email exists'') \<and>
   snd (register example_libs 2 (asha_registration\<lparr>reg_name := Some ''Mallory''\<rparr>)
          (snd (register example_libs 1 asha_registration seeded_store)))
     = snd (register example_libs 1 asha_registration seeded_store) \<and>
   User_findOne_email ''asha@example.com''
       (snd (register example_libs 1 asha_registration seeded_store))
     = Some (last (User (snd (register example_libs 1 asha_registration seeded_store))))"
proof -
  let ?first = "register example_libs 1 asha_registration seeded_store"
  let ?b2 = "asha_registration\<lparr>reg_name := Some ''Mallory''\<rparr>"
  have created: "fst (fst ?first) = 201"
    by (simp add: register_def User_findOne_email_def User_create_def seeded_store_def
        asha_registration_def Let_def)
  then have first: "?first = ((201, snd (fst ?first)), snd ?first)"
    by (simp add: prod_eq_iff)
  have same: "reg_email ?b2 = reg_email asha_registration"
    by simp
  have given: "truthy (reg_name ?b2) \<and> truthy (reg_password ?b2)"
    by (simp add: asha_registration_def)
  have email: "reg_email asha_registration = Some ''asha@example.com''"
    by (simp add: asha_registration_def)
  note t = register_same_email_twice[OF first same, where L' = example_libs and ?now2.0 = 2]
  from t have "fst (register example_libs 2 ?b2 (snd ?first)) = (400, Err ''Email exists'')"
    using given by blast
  moreover from t have "snd (register example_libs 2 ?b2 (snd ?first)) = snd ?first"
    by blast
  moreover from t email have "User_findOne_email ''asha@example.com'' (snd ?first)
      = Some (last (User (snd ?first)))"
    by auto
  ultimately show ?thesis
    using created by (intro conjI)
qed


section \<open>The broadcast never fails a checkout\<close>

text \<open>
  Claim C2. For a checkout that places its order (item list non-empty; guest: placeholder
  email not taken; authenticated: account found), the response is 201 with the order id
  whatever the subscriber list is and whichever subscribers' writes throw: replacing the
  subscriber list by any other list \<open>cs\<close> changes neither the response nor the stored
  order. There is one payload, \<^verbatim>\<open>data: \<close> followed by the serialized order summary and
  two newlines; every subscriber registered at the time of the broadcast whose write does
  not throw has exactly that payload appended to its stream, and a subscriber whose write
  throws is left as it was. A subscriber that registers afterwards has only the initial
  newline on its stream, not the payload. \<^verbatim>\<open>JSON.stringify\<close> is taken as total: the
  summary is built from a parsed JSON body and stored documents.
\<close>

theorem broadcast_failure_never_fails_checkout:
  assumes "co_items b = Some items" and "items \<noteq> []"
  shows
    "(\<not> list_ex (\<lambda>u. user_email u = guest_email now) (User s) \<longrightarrow>
        (\<exists>payload s'. placeGuestOrder L now rnd b s = ((201, SuccessOrder (Suc (next_oid s))), s') \<and>
           fst (placeGuestOrder L now rnd b (s\<lparr>sseClients := cs\<rparr>))
             = (201, SuccessOrder (Suc (next_oid s))) \<and>
           Order (snd (placeGuestOrder L now rnd b (s\<lparr>sseClients := cs\<rparr>))) = Order s' \<and>
           payload = sse_payload L
             \<lparr>sum_id = Suc (next_oid s), sum_userName = guest_name (co_deliveryAddress b),
              sum_deliveryAddress = co_deliveryAddress b, sum_items = items,
              sum_total = co_total b, sum_createdAt = now, sum_status = ''pending''\<rparr> \<and>
           list_all2 (delivered payload) (sseClients s) (sseClients s') \<and>
           payload \<notin> set (res_written (client_res (last (sseClients (events auth' cid s'))))))) \<and>
     (authMiddleware L auth = Inr u \<and> User_findById (jwt_id u) s = Some user \<longrightarrow>
        (\<exists>payload s'. orders_post L auth now b s = ((201, SuccessOrder (next_oid s)), s') \<and>
           fst (orders_post L auth now b (s\<lparr>sseClients := cs\<rparr>)) = (201, SuccessOrder (next_oid s)) \<and>
           Order (snd (orders_post L auth now b (s\<lparr>sseClients := cs\<rparr>))) = Order s' \<and>
           payload = sse_payload L
             \<lparr>sum_id = next_oid s, sum_userName = user_name user,
              sum_deliveryAddress = co_deliveryAddress b, sum_items = items,
              sum_total = co_total b, sum_createdAt = now, sum_status = ''pending''\<rparr> \<and>
           list_all2 (delivered payload) (sseClients s) (sseClients s') \<and>
           payload \<notin> set (res_written (client_res (last (sseClients (events auth' cid s')))))))"
proof (intro conjI impI)
  assume fresh: "\<not> list_ex (\<lambda>u. user_email u = guest_email now) (User s)"
  let ?ord = "placed_order (Suc (next_oid s)) (next_oid s) now items b"
  let ?p = "sse_payload L (order_event (guest_name (co_deliveryAddress b)) ?ord)"
  let ?s' = "snd (placeGuestOrder L now rnd b s)"
  have fresh': "\<not> list_ex (\<lambda>u. user_email u = guest_email now) (User (s\<lparr>sseClients := cs\<rparr>))"
    using fresh by simp
  note run = placeGuestOrder_placed[OF assms fresh, of L rnd]
  note run' = placeGuestOrder_placed[OF assms fresh', of L rnd]
  have 1: "placeGuestOrder L now rnd b s = ((201, SuccessOrder (Suc (next_oid s))), ?s')"
    by (simp add: run)
  have 2: "fst (placeGuestOrder L now rnd b (s\<lparr>sseClients := cs\<rparr>))
      = (201, SuccessOrder (Suc (next_oid s)))"
    by (simp add: run')
  have 3: "Order (snd (placeGuestOrder L now rnd b (s\<lparr>sseClients := cs\<rparr>))) = Order ?s'"
    by (simp add: run run')
  have 4: "?p = sse_payload L
             \<lparr>sum_id = Suc (next_oid s), sum_userName = guest_name (co_deliveryAddress b),
              sum_deliveryAddress = co_deliveryAddress b, sum_items = items,
              sum_total = co_total b, sum_createdAt = now, sum_status = ''pending''\<rparr>"
    by (simp add: order_event_def placed_order_def)
  have 5: "list_all2 (delivered ?p) (sseClients s) (sseClients ?s')"
    by (simp add: run broadcast_delivered)
  have 6: "?p \<notin> set (res_written (client_res (last (sseClients (events auth' cid ?s')))))"
    by (simp add: events_def sse_payload_not_newline)
  from 1 2 3 4 5 6
  show "\<exists>payload s'. placeGuestOrder L now rnd b s = ((201, SuccessOrder (Suc (next_oid s))), s') \<and>
           fst (placeGuestOrder L now rnd b (s\<lparr>sseClients := cs\<rparr>))
             = (201, SuccessOrder (Suc (next_oid s))) \<and>
           Order (snd (placeGuestOrder L now rnd b (s\<lparr>sseClients := cs\<rparr>))) = Order s' \<and>
           payload = sse_payload L
             \<lparr>sum_id = Suc (next_oid s), sum_userName = guest_name (co_deliveryAddress b),
              sum_deliveryAddress = co_deliveryAddress b, sum_items = items,
              sum_total = co_total b, sum_createdAt = now, sum_status = ''pending''\<rparr> \<and>
           list_all2 (delivered payload) (sseClients s) (sseClients s') \<and>
           payload \<notin> set (res_written (client_res (last (sseClients (events auth' cid s')))))"
    by (intro exI[of _ ?p] exI[of _ ?s'] conjI)
next
  assume a: "authMiddleware L auth = Inr u \<and> User_findById (jwt_id u) s = Some user"
  let ?ord = "placed_order (next_oid s) (user_id user) now items b"
  let ?p = "sse_payload L (order_event (user_name user) ?ord)"
  let ?s' = "snd (orders_post L auth now b s)"
  have found': "User_findById (jwt_id u) (s\<lparr>sseClients := cs\<rparr>) = Some user"
    using a by (simp add: User_findById_def)
  have post: "orders_post L auth now b s = orders_handler L now b u s"
    "orders_post L auth now b (s\<lparr>sseClients := cs\<rparr>) = orders_handler L now b u (s\<lparr>sseClients := cs\<rparr>)"
    using a by (simp_all add: orders_post_authenticated)
  note run = orders_handler_placed[OF assms conjunct2[OF a], of L now]
  note run' = orders_handler_placed[OF assms found', of L now]
  have 1: "orders_post L auth now b s = ((201, SuccessOrder (next_oid s)), ?s')"
    by (simp add: post run)
  have 2: "fst (orders_post L auth now b (s\<lparr>sseClients := cs\<rparr>)) = (201, SuccessOrder (next_oid s))"
    by (simp add: post run')
  have 3: "Order (snd (orders_post L auth now b (s\<lparr>sseClients := cs\<rparr>))) = Order ?s'"
    by (simp add: post run run')
  have 4: "?p = sse_payload L
             \<lparr>sum_id = next_oid s, sum_userName = user_name user,
              sum_deliveryAddress = co_deliveryAddress b, sum_items = items,
              sum_total = co_total b, sum_createdAt = now, sum_status = ''pending''\<rparr>"
    by (simp add: order_event_def placed_order_def)
  have 5: "list_all2 (delivered ?p) (sseClients s) (sseClients ?s')"
    by (simp add: post run broadcast_delivered)
  have 6: "?p \<notin> set (res_written (client_res (last (sseClients (events auth' cid ?s')))))"
    by (simp add: events_def sse_payload_not_newline)
  from 1 2 3 4 5 6
  show "\<exists>payload s'. orders_post L auth now b s = ((201, SuccessOrder (next_oid s)), s') \<and>
           fst (orders_post L auth now b (s\<lparr>sseClients := cs\<rparr>)) = (201, SuccessOrder (next_oid s)) \<and>
           Order (snd (orders_post L auth now b (s\<lparr>sseClients := cs\<rparr>))) = Order s' \<and>
           payload = sse_payload L
             \<lparr>sum_id = next_oid s, sum_userName = user_name user,
              sum_deliveryAddress = co_deliveryAddress b, sum_items = items,
              sum_total = co_total b, sum_createdAt = now, sum_status = ''pending''\<rparr> \<and>
           list_all2 (delivered payload) (sseClients s) (sseClients s') \<and>
           payload \<notin> set (res_written (client_res (last (sseClients (events auth' cid s')))))"
    by (intro exI[of _ ?p] exI[of _ ?s'] conjI)
qed

theorem broadcast_failure_never_fails_checkout_witness:
  "fst (placeGuestOrder example_libs 1700000000000 ''k3x9'' example_checkout watched_store)
     = (201, SuccessOrder 5) \<and>
   fst (placeGuestOrder example_libs 1700000000000 ''k3x9'' example_checkout
          (watched_store\<lparr>sseClients := [broken_client, broken_client]\<rparr>))
     = (201, SuccessOrder 5) \<and>
   sseClients (snd (placeGuestOrder example_libs 1700000000000 ''k3x9'' example_checkout
                      watched_store))
     = [open_client\<lparr>client_res :=
          \<lparr>res_written = [[CHR 0x0A], ''data: {userName:A,status:pending}'' @ [CHR 0x0A, CHR 0x0A]],
           res_throws = False\<rparr>\<rparr>,
        broken_client] \<and>
   fst (orders_post example_libs (Some ''Bearer tok.user'') 1700000000000 example_checkout
          watched_store)
     = (201, SuccessOrder 4) \<and>
   sseClients (snd (orders_post example_libs (Some ''Bearer tok.user'') 1700000000000
                      example_checkout watched_store))
     = [open_client\<lparr>client_res :=
          \<lparr>res_written = [[CHR 0x0A], ''data: {userName:Asha,status:pending}'' @ [CHR 0x0A, CHR 0x0A]],
           res_throws = False\<rparr>\<rparr>,
        broken_client]"
proof -
  let ?rice = "\<lparr>item_productId = 0, item_name = ''Rice'', item_price = 90, item_quantity = 2\<rparr>"
  have items: "co_items example_checkout = Some [?rice]" "[?rice] \<noteq> []"
    by (simp_all add: example_checkout_def)
  have fresh: "\<not> list_ex (\<lambda>u. user_email u = guest_email 1700000000000) (User watched_store)"
    by (simp add: watched_store_def registered_store_def asha_def seeded_store_def guest_email_def)
  have known: "authMiddleware example_libs (Some ''Bearer tok.user'') =
        Inr \<lparr>jwt_id = 3, jwt_role = ''user'', jwt_name = ''Asha''\<rparr> \<and>
      User_findById (jwt_id \<lparr>jwt_id = 3, jwt_role = ''user'', jwt_name = ''Asha''\<rparr>) watched_store
        = Some asha"
    by (simp add: auth_user User_findById_def watched_store_def registered_store_def asha_def
        seeded_store_def)
  have nxt: "next_oid watched_store = 4"
    by (simp add: watched_store_def registered_store_def)
  have subs: "sseClients watched_store = [open_client, broken_client]"
    by (simp add: watched_store_def)
  have guest_payload: "\<And>i. sse_payload example_libs
      \<lparr>sum_id = i,
       sum_userName = guest_name (co_deliveryAddress example_checkout),
       sum_deliveryAddress = co_deliveryAddress example_checkout, sum_items = [?rice],
       sum_total = co_total example_checkout, sum_createdAt = 1700000000000,
       sum_status = ''pending''\<rparr>
      = ''data: {userName:A,status:pending}'' @ [CHR 0x0A, CHR 0x0A]"
    by (simp add: sse_payload_def example_libs_def guest_name_def example_checkout_def)
  have user_payload: "\<And>i. sse_payload example_libs
      \<lparr>sum_id = i, sum_userName = user_name asha,
       sum_deliveryAddress = co_deliveryAddress example_checkout, sum_items = [?rice],
       sum_total = co_total example_checkout, sum_createdAt = 1700000000000,
       sum_status = ''pending''\<rparr>
      = ''data: {userName:Asha,status:pending}'' @ [CHR 0x0A, CHR 0x0A]"
    by (simp add: sse_payload_def example_libs_def asha_def)
  note t = broadcast_failure_never_fails_checkout[OF items,
      where s = watched_store and now = 1700000000000 and L = example_libs
        and cs = "[broken_client, broken_client]" and auth' = None and cid = 0]
  from t[where rnd = "''k3x9''", THEN conjunct1, rule_format, OF fresh]
  have guest: "fst (placeGuestOrder example_libs 1700000000000 ''k3x9'' example_checkout watched_store)
        = (201, SuccessOrder 5) \<and>
      fst (placeGuestOrder example_libs 1700000000000 ''k3x9'' example_checkout
             (watched_store\<lparr>sseClients := [broken_client, broken_client]\<rparr>))
        = (201, SuccessOrder 5) \<and>
      sseClients (snd (placeGuestOrder example_libs 1700000000000 ''k3x9'' example_checkout
                         watched_store))
        = [open_client\<lparr>client_res :=
             \<lparr>res_written = [[CHR 0x0A], ''data: {userName:A,status:pending}'' @ [CHR 0x0A, CHR 0x0A]],
              res_throws = False\<rparr>\<rparr>,
           broken_client]"
    unfolding guest_payload subs nxt
    apply (elim exE conjE)
    apply (simp add: list_all2_Cons1 delivered_def open_client_def broken_client_def)
    done
  from t[where auth = "Some ''Bearer tok.user''", THEN conjunct2, rule_format, OF known]
  have user: "fst (orders_post example_libs (Some ''Bearer tok.user'') 1700000000000
             example_checkout watched_store)
        = (201, SuccessOrder 4) \<and>
      sseClients (snd (orders_post example_libs (Some ''Bearer tok.user'') 1700000000000
                         example_checkout watched_store))
        = [open_client\<lparr>client_res :=
             \<lparr>res_written = [[CHR 0x0A], ''data: {userName:Asha,status:pending}'' @ [CHR 0x0A, CHR 0x0A]],
              res_throws = False\<rparr>\<rparr>,
           broken_client]"
    unfolding user_payload subs nxt
    apply (elim exE conjE)
    apply (simp add: list_all2_Cons1 delivered_def open_client_def broken_client_def)
    done
  from guest user show ?thesis
    by (intro conjI) simp_all
qed


section \<open>The event stream is open to anyone\<close>

text \<open>
  No request other than the close of a subscriber's own stream removes it from
  \<^verbatim>\<open>sseClients\<close>, and a checkout that places an order writes the chunk to it.
\<close>

lemma delete_first_keeps: "x \<in> set xs \<Longrightarrow> \<not> P x \<Longrightarrow> x \<in> set (delete_first P xs)"
  by (induction xs) auto

lemma register_sseClients: "sseClients (snd (register L now b s)) = sseClients s"
  by (auto simp: register_def User_create_def Let_def split: option.splits)

lemma login_state: "snd (login L b s) = s"
  by (auto simp: login_def split: option.splits)

lemma profile_sseClients: "sseClients (snd (profile L auth b s)) = sseClients s"
  by (auto simp: profile_def auth_route_def profile_handler_def User_save_def Let_def
      split: sum.splits option.splits)

lemma admin_handler_sseClients: "sseClients (snd (admin_handler L now r s)) = sseClients s"
  by (cases r)
     (auto simp: admin_orders_get_def admin_orders_delete_def admin_orders_status_def Let_def
        admin_products_put_frame admin_products_post_frame admin_products_delete_frame
        split: param_id.splits option.splits)

lemma admin_api_sseClients: "sseClients (snd (admin_api L auth now r s)) = sseClients s"
  using admin_route_cases[of L auth "admin_handler L now r" s]
  by (auto simp: admin_api_def admin_handler_sseClients)

lemma placeGuestOrder_outcomes:
  "(snd (placeGuestOrder L now rnd b s) = s \<and>
    (\<exists>status msg. fst (placeGuestOrder L now rnd b s) = (status, Err msg))) \<or>
   (\<exists>items. co_items b = Some items \<and> items \<noteq> [] \<and>
      \<not> list_ex (\<lambda>u. user_email u = guest_email now) (User s))"
  by (auto simp: placeGuestOrder_def User_create_def split: option.splits)

lemma orders_handler_outcomes:
  "(snd (orders_handler L now b u s) = s \<and>
    (\<exists>status msg. fst (orders_handler L now b u s) = (status, Err msg))) \<or>
   (\<exists>items user. co_items b = Some items \<and> items \<noteq> [] \<and>
      User_findById (jwt_id u) s = Some user)"
  by (auto simp: orders_handler_def split: option.splits)

lemma written_client:
  assumes "c \<in> set cs" and "\<not> res_throws (client_res c)"
  shows "\<exists>c' \<in> set (map (write_client payload) cs).
           client_id c' = client_id c \<and> \<not> res_throws (client_res c') \<and>
           res_written (client_res c') = res_written (client_res c) @ [payload]"
proof -
  have member: "write_client payload c \<in> set (map (write_client payload) cs)"
    using assms(1) by simp
  have "write_client payload c =
      c\<lparr>client_res := (client_res c)\<lparr>res_written := res_written (client_res c) @ [payload]\<rparr>\<rparr>"
    using assms(2) by (simp add: write_client_def res_write_def)
  then have "client_id (write_client payload c) = client_id c \<and>
      \<not> res_throws (client_res (write_client payload c)) \<and>
      res_written (client_res (write_client payload c)) = res_written (client_res c) @ [payload]"
    using assms(2) by simp
  with member show ?thesis
    by (rule bexI[rotated])
qed

lemma serve_delivers:
  assumes "r \<noteq> CloseEvents cid" and "c \<in> set (sseClients s)" and "client_id c = cid"
    and "\<not> res_throws (client_res c)"
  shows "\<exists>c' \<in> set (sseClients (serve L r s)).
           client_id c' = cid \<and> \<not> res_throws (client_res c') \<and>
           res_written (client_res c') = res_written (client_res c) @ events_for L r s"
proof (cases r)
  case (Register now b)
  with assms show ?thesis
    by (intro bexI[of _ c]) (simp_all add: register_sseClients)
next
  case (Login b)
  with assms show ?thesis
    by (intro bexI[of _ c]) (simp_all add: login_state)
next
  case (PutProfile auth b)
  with assms show ?thesis
    by (intro bexI[of _ c]) (simp_all add: profile_sseClients)
next
  case (AdminApi auth now ar)
  with assms show ?thesis
    by (intro bexI[of _ c]) (simp_all add: admin_api_sseClients)
next
  case (GetEvents auth clientId)
  with assms show ?thesis
    by (intro bexI[of _ c]) (simp_all add: events_def)
next
  case (CloseEvents clientId)
  with assms have "clientId \<noteq> client_id c"
    by auto
  with assms(2) have "c \<in> set (delete_first (\<lambda>x. client_id x = clientId) (sseClients s))"
    by (intro delete_first_keeps) auto
  with CloseEvents assms show ?thesis
    by (intro bexI[of _ c]) (simp_all add: events_close_def)
next
  case (PlaceGuestOrder now rnd b)
  from placeGuestOrder_outcomes[of L now rnd b s] show ?thesis
  proof (elim disjE conjE exE)
    fix status msg
    assume "snd (placeGuestOrder L now rnd b s) = s"
      and "fst (placeGuestOrder L now rnd b s) = (status, Err msg)"
    with PlaceGuestOrder assms show ?thesis
      by (intro bexI[of _ c]) simp_all
  next
    fix items
    assume items: "co_items b = Some items" "items \<noteq> []"
      and fresh: "\<not> list_ex (\<lambda>u. user_email u = guest_email now) (User s)"
    note run = placeGuestOrder_placed[OF items fresh, of L rnd]
    let ?p = "sse_payload L (order_event (guest_name (co_deliveryAddress b))
        (placed_order (Suc (next_oid s)) (next_oid s) now items b))"
    have ev: "events_for L r s = [?p]"
      using PlaceGuestOrder items
      by (simp add: run sse_payload_def order_event_def placed_order_def)
    have subs: "sseClients (serve L r s) = map (write_client ?p) (sseClients s)"
      using PlaceGuestOrder by (simp add: run)
    from written_client[OF assms(2) assms(4), of ?p] assms(3) show ?thesis
      unfolding ev subs by auto
  qed
next
  case (PostOrder auth now b)
  show ?thesis
  proof (cases "authMiddleware L auth")
    case (Inl resp)
    with PostOrder assms show ?thesis
      by (intro bexI[of _ c]) (simp_all add: orders_post_def auth_route_def)
  next
    case (Inr u)
    note post = orders_post_authenticated[OF Inr, of now b s]
    from orders_handler_outcomes[of L now b u s] show ?thesis
    proof (elim disjE conjE exE)
      fix status msg
      assume "snd (orders_handler L now b u s) = s"
        and "fst (orders_handler L now b u s) = (status, Err msg)"
      with PostOrder Inr assms show ?thesis
        by (intro bexI[of _ c]) (simp_all add: post split: option.splits)
    next
      fix items user
      assume items: "co_items b = Some items" "items \<noteq> []"
        and found: "User_findById (jwt_id u) s = Some user"
      note run = orders_handler_placed[OF items found, of L now]
      let ?p = "sse_payload L (order_event (user_name user)
          (placed_order (next_oid s) (user_id user) now items b))"
      have ev: "events_for L r s = [?p]"
        using PostOrder Inr items found
        by (simp add: post run sse_payload_def order_event_def placed_order_def)
      have subs: "sseClients (serve L r s) = map (write_client ?p) (sseClients s)"
        using PostOrder by (simp add: post run)
      from written_client[OF assms(2) assms(4), of ?p] assms(3) show ?thesis
        unfolding ev subs by auto
    qed
  qed
qed

lemma serve_all_delivers:
  assumes "list_all (\<lambda>r. r \<noteq> CloseEvents cid) rs" and "c \<in> set (sseClients s)"
    and "client_id c = cid" and "\<not> res_throws (client_res c)"
  shows "\<exists>c' \<in> set (sseClients (serve_all L rs s)).
           client_id c' = cid \<and> \<not> res_throws (client_res c') \<and>
           res_written (client_res c') = res_written (client_res c) @ events_during L rs s"
  using assms
proof (induction rs arbitrary: s c)
  case Nil
  then show ?case
    by (intro bexI[of _ c]) simp_all
next
  case (Cons r rs)
  from Cons.prems have r: "r \<noteq> CloseEvents cid" and rest: "list_all (\<lambda>r. r \<noteq> CloseEvents cid) rs"
    by simp_all
  from serve_delivers[OF r Cons.prems(2,3,4), of L]
  obtain c1 where c1: "c1 \<in> set (sseClients (serve L r s))" "client_id c1 = cid"
    "\<not> res_throws (client_res c1)"
    "res_written (client_res c1) = res_written (client_res c) @ events_for L r s"
    by auto
  from Cons.IH[OF rest c1(1,2,3)] c1(4) show ?case
    by auto
qed

lemma auth_user_verbose:
  "authMiddleware verbose_libs (Some ''Bearer tok.user'') =
     Inr \<lparr>jwt_id = 3, jwt_role = ''user'', jwt_name = ''Asha''\<rparr>"
  by (simp add: authMiddleware_def bearer_token_def at_index_def verbose_libs_def
      example_libs_def)

lemma example_stringify_guest:
  "example_stringify
     \<lparr>sum_id = i, sum_userName = ''A'', sum_deliveryAddress = co_deliveryAddress example_checkout,
      sum_items = [\<lparr>item_productId = 0, item_name = ''Rice'', item_price = 90,
                    item_quantity = 2\<rparr>],
      sum_total = Some 180, sum_createdAt = t, sum_status = st\<rparr>
   = ''{userName:A,deliveryAddress:{name:A,phone:123,line1:X,city:Y},items:[{name:Rice,price:90,quantity:2}],total:180}''"
  by (simp add: example_stringify_def example_number_def example_checkout_def)

lemma example_stringify_user:
  "example_stringify
     \<lparr>sum_id = i, sum_userName = ''Asha'', sum_deliveryAddress = co_deliveryAddress example_checkout,
      sum_items = [\<lparr>item_productId = 0, item_name = ''Rice'', item_price = 90,
                    item_quantity = 2\<rparr>],
      sum_total = Some 180, sum_createdAt = t, sum_status = st\<rparr>
   = ''{userName:Asha,deliveryAddress:{name:A,phone:123,line1:X,city:Y},items:[{name:Rice,price:90,quantity:2}],total:180}''"
  by (simp add: example_stringify_def example_number_def example_checkout_def)

lemma example_requests_events:
  "events_during verbose_libs example_requests (events auth cid registered_store) =
     [''data: {userName:A,deliveryAddress:{name:A,phone:123,line1:X,city:Y},items:[{name:Rice,price:90,quantity:2}],total:180}'' @ [CHR 0x0A, CHR 0x0A],
      ''data: {userName:Asha,deliveryAddress:{name:A,phone:123,line1:X,city:Y},items:[{name:Rice,price:90,quantity:2}],total:180}'' @ [CHR 0x0A, CHR 0x0A]]"
proof -
  let ?rice = "\<lparr>item_productId = 0, item_name = ''Rice'', item_price = 90, item_quantity = 2\<rparr>"
  let ?guest = "PlaceGuestOrder 1700000000000 ''k3x9'' example_checkout"
  let ?other = "GetEvents None 1700000000004.5"
  let ?user = "PostOrder (Some ''Bearer tok.user'') 1700000000200 example_checkout"
  define s1 where "s1 = events auth cid registered_store"
  define s2 where "s2 = serve verbose_libs ?guest s1"
  define s3 where "s3 = serve verbose_libs ?other s2"
  have items: "co_items example_checkout = Some [?rice]" "[?rice] \<noteq> []"
    by (simp_all add: example_checkout_def)
  have vals: "co_total example_checkout = Some 180"
    "guest_name (co_deliveryAddress example_checkout) = ''A''"
    by (simp_all add: example_checkout_def guest_name_def)
  have stringify: "JSON_stringify verbose_libs = example_stringify"
    by (simp add: verbose_libs_def)
  have users1: "User s1 = User registered_store"
    by (simp add: s1_def events_frame)
  have fresh: "\<not> list_ex (\<lambda>u. user_email u = guest_email 1700000000000) (User s1)"
    unfolding users1
    by (simp add: registered_store_def asha_def seeded_store_def guest_email_def)
  note run1 = placeGuestOrder_placed[OF items fresh, of verbose_libs "''k3x9''"]
  have e1: "events_for verbose_libs ?guest s1 =
      [''data: {userName:A,deliveryAddress:{name:A,phone:123,line1:X,city:Y},items:[{name:Rice,price:90,quantity:2}],total:180}'' @ [CHR 0x0A, CHR 0x0A]]"
    by (simp add: run1 items vals stringify example_stringify_guest)
  have "User s2 = User registered_store @
      [guest_account verbose_libs (next_oid s1) 1700000000000 ''k3x9'' example_checkout]"
    by (simp add: s2_def run1 users1)
  then have users3: "User s3 = User registered_store @
      [guest_account verbose_libs (next_oid s1) 1700000000000 ''k3x9'' example_checkout]"
    by (simp add: s3_def events_frame)
  have found: "User_findById (jwt_id \<lparr>jwt_id = 3, jwt_role = ''user'', jwt_name = ''Asha''\<rparr>) s3
      = Some asha"
    unfolding User_findById_def users3
    by (simp add: registered_store_def seeded_store_def asha_def)
  note run3 = orders_handler_placed[OF items found, of verbose_libs 1700000000200]
  have name: "user_name asha = ''Asha''"
    by (simp add: asha_def)
  have "events_for verbose_libs ?user s3 =
      new_order_event verbose_libs (user_name asha) 1700000000200 example_checkout
        (fst (orders_post verbose_libs (Some ''Bearer tok.user'') 1700000000200
                example_checkout s3))"
    using found by (simp add: auth_user_verbose)
  also have "\<dots> =
      [''data: {userName:Asha,deliveryAddress:{name:A,phone:123,line1:X,city:Y},items:[{name:Rice,price:90,quantity:2}],total:180}'' @ [CHR 0x0A, CHR 0x0A]]"
    by (simp add: orders_post_authenticated[OF auth_user_verbose] run3 items vals stringify
        name example_stringify_user)
  finally have e3: "events_for verbose_libs ?user s3 =
      [''data: {userName:Asha,deliveryAddress:{name:A,phone:123,line1:X,city:Y},items:[{name:Rice,price:90,quantity:2}],total:180}'' @ [CHR 0x0A, CHR 0x0A]]" .
  have e2: "events_for verbose_libs ?other s2 = []"
    by simp
  have "events_during verbose_libs example_requests s1 =
      events_for verbose_libs ?guest s1 @ events_for verbose_libs ?other s2 @
      events_for verbose_libs ?user s3"
    unfolding example_requests_def s2_def s3_def
    by (simp only: events_during.simps append_Nil2)
  also have "\<dots> =
     [''data: {userName:A,deliveryAddress:{name:A,phone:123,line1:X,city:Y},items:[{name:Rice,price:90,quantity:2}],total:180}'' @ [CHR 0x0A, CHR 0x0A],
      ''data: {userName:Asha,deliveryAddress:{name:A,phone:123,line1:X,city:Y},items:[{name:Rice,price:90,quantity:2}],total:180}'' @ [CHR 0x0A, CHR 0x0A]]"
    by (simp only: e1 e2 e3 append.simps)
  finally show ?thesis
    by (simp only: s1_def)
qed

text \<open>
  Claim C10. \<^verbatim>\<open>GET /events\<close> registers a subscriber whatever the \<^verbatim>\<open>Authorization\<close>
  header is: no token is required and none is inspected, the result is the one for a
  request without the header, and the new subscriber is appended to \<^verbatim>\<open>sseClients\<close>.
  Whatever requests are served afterwards, as long as the subscriber's own stream is not
  closed, the subscriber has received, after its initial newline, one chunk for every
  order placed since, in order: \<^verbatim>\<open>data: \<close>, the JSON text of the order summary and two
  newlines. In particular the next order placed, by a guest or by an authenticated
  customer, puts that chunk on the stream, and its summary carries the customer's name,
  the delivery address as submitted (with its name and phone), the items and the total.
\<close>

theorem events_needs_no_token:
  "events auth cid s = events None cid s \<and>
   sseClients (events auth cid s) =
     sseClients s @
       [\<lparr>client_id = cid, client_res = \<lparr>res_written = [[CHR 0x0A]], res_throws = False\<rparr>\<rparr>] \<and>
   (list_all (\<lambda>r. r \<noteq> CloseEvents cid) rs \<longrightarrow>
      (\<exists>c \<in> set (sseClients (serve_all L rs (events auth cid s))).
         client_id c = cid \<and>
         res_written (client_res c) = [CHR 0x0A] # events_during L rs (events auth cid s))) \<and>
   (co_items b = Some items \<and> items \<noteq> [] \<and>
      \<not> list_ex (\<lambda>u. user_email u = guest_email now) (User s) \<longrightarrow>
      last (sseClients (snd (placeGuestOrder L now rnd b (events auth cid s)))) =
        \<lparr>client_id = cid,
         client_res =
           \<lparr>res_written =
              [[CHR 0x0A],
               ''data: '' @
               JSON_stringify L
                 \<lparr>sum_id = Suc (next_oid s), sum_userName = guest_name (co_deliveryAddress b),
                  sum_deliveryAddress = co_deliveryAddress b, sum_items = items,
                  sum_total = co_total b, sum_createdAt = now, sum_status = ''pending''\<rparr> @
               [CHR 0x0A, CHR 0x0A]],
            res_throws = False\<rparr>\<rparr>) \<and>
   (co_items b = Some items \<and> items \<noteq> [] \<and> authMiddleware L auth2 = Inr u \<and>
      User_findById (jwt_id u) s = Some user \<longrightarrow>
      last (sseClients (snd (orders_post L auth2 now b (events auth cid s)))) =
        \<lparr>client_id = cid,
         client_res =
           \<lparr>res_written =
              [[CHR 0x0A],
               ''data: '' @
               JSON_stringify L
                 \<lparr>sum_id = next_oid s, sum_userName = user_name user,
                  sum_deliveryAddress = co_deliveryAddress b, sum_items = items,
                  sum_total = co_total b, sum_createdAt = now, sum_status = ''pending''\<rparr> @
               [CHR 0x0A, CHR 0x0A]],
            res_throws = False\<rparr>\<rparr>)"
proof (intro conjI impI)
  show "events auth cid s = events None cid s"
    by (simp add: events_def)
  show "sseClients (events auth cid s) =
     sseClients s @
       [\<lparr>client_id = cid, client_res = \<lparr>res_written = [[CHR 0x0A]], res_throws = False\<rparr>\<rparr>]"
    by (simp add: events_def)
next
  assume open_: "list_all (\<lambda>r. r \<noteq> CloseEvents cid) rs"
  let ?c = "\<lparr>client_id = cid, client_res = \<lparr>res_written = [[CHR 0x0A]], res_throws = False\<rparr>\<rparr>"
  have "?c \<in> set (sseClients (events auth cid s))"
    by (simp add: events_def)
  from serve_all_delivers[OF open_ this, of L]
  show "\<exists>c \<in> set (sseClients (serve_all L rs (events auth cid s))).
         client_id c = cid \<and>
         res_written (client_res c) = [CHR 0x0A] # events_during L rs (events auth cid s)"
    by auto
next
  assume a: "co_items b = Some items \<and> items \<noteq> [] \<and>
      \<not> list_ex (\<lambda>u. user_email u = guest_email now) (User s)"
  then have fresh: "\<not> list_ex (\<lambda>u. user_email u = guest_email now) (User (events auth cid s))"
    by (simp add: events_frame)
  from a have items: "co_items b = Some items" "items \<noteq> []"
    by simp_all
  show "last (sseClients (snd (placeGuestOrder L now rnd b (events auth cid s)))) =
        \<lparr>client_id = cid,
         client_res =
           \<lparr>res_written =
              [[CHR 0x0A],
               ''data: '' @
               JSON_stringify L
                 \<lparr>sum_id = Suc (next_oid s), sum_userName = guest_name (co_deliveryAddress b),
                  sum_deliveryAddress = co_deliveryAddress b, sum_items = items,
                  sum_total = co_total b, sum_createdAt = now, sum_status = ''pending''\<rparr> @
               [CHR 0x0A, CHR 0x0A]],
            res_throws = False\<rparr>\<rparr>"
    by (simp add: placeGuestOrder_placed[OF items fresh] events_frame)
       (simp add: events_def write_client_def res_write_def order_event_def placed_order_def
          sse_payload_def)
next
  assume a: "co_items b = Some items \<and> items \<noteq> [] \<and> authMiddleware L auth2 = Inr u \<and>
      User_findById (jwt_id u) s = Some user"
  then have found: "User_findById (jwt_id u) (events auth cid s) = Some user"
    by (simp add: User_findById_def events_frame)
  from a have items: "co_items b = Some items" "items \<noteq> []"
    and auth2: "authMiddleware L auth2 = Inr u"
    by simp_all
  show "last (sseClients (snd (orders_post L auth2 now b (events auth cid s)))) =
        \<lparr>client_id = cid,
         client_res =
           \<lparr>res_written =
              [[CHR 0x0A],
               ''data: '' @
               JSON_stringify L
                 \<lparr>sum_id = next_oid s, sum_userName = user_name user,
                  sum_deliveryAddress = co_deliveryAddress b, sum_items = items,
                  sum_total = co_total b, sum_createdAt = now, sum_status = ''pending''\<rparr> @
               [CHR 0x0A, CHR 0x0A]],
            res_throws = False\<rparr>\<rparr>"
    by (simp add: orders_post_authenticated[OF auth2] orders_handler_placed[OF items found]
          events_frame)
       (simp add: events_def write_client_def res_write_def order_event_def placed_order_def
          sse_payload_def)
qed

theorem events_needs_no_token_witness:
  "(\<exists>c \<in> set (sseClients (serve_all verbose_libs example_requests
                       (events (Some ''Bearer tok.expired'') 1700000000003.5 registered_store))).
      client_id c = 1700000000003.5 \<and>
      res_written (client_res c) =
        [[CHR 0x0A],
         ''data: {userName:A,deliveryAddress:{name:A,phone:123,line1:X,city:Y},items:[{name:Rice,price:90,quantity:2}],total:180}'' @ [CHR 0x0A, CHR 0x0A],
         ''data: {userName:Asha,deliveryAddress:{name:A,phone:123,line1:X,city:Y},items:[{name:Rice,price:90,quantity:2}],total:180}'' @ [CHR 0x0A, CHR 0x0A]]) \<and>
   last (sseClients
           (snd (placeGuestOrder verbose_libs 1700000000000 ''k3x9'' example_checkout
                   (events None 1700000000003.5 registered_store)))) =
     \<lparr>client_id = 1700000000003.5,
      client_res =
        \<lparr>res_written =
           [[CHR 0x0A],
            ''data: {userName:A,deliveryAddress:{name:A,phone:123,line1:X,city:Y},items:[{name:Rice,price:90,quantity:2}],total:180}'' @ [CHR 0x0A, CHR 0x0A]],
         res_throws = False\<rparr>\<rparr> \<and>
   last (sseClients
           (snd (orders_post verbose_libs (Some ''Bearer tok.user'') 1700000000000
                   example_checkout (events (Some ''Bearer tok.expired'') 1700000000003.5
                                       registered_store)))) =
     \<lparr>client_id = 1700000000003.5,
      client_res =
        \<lparr>res_written =
           [[CHR 0x0A],
            ''data: {userName:Asha,deliveryAddress:{name:A,phone:123,line1:X,city:Y},items:[{name:Rice,price:90,quantity:2}],total:180}'' @ [CHR 0x0A, CHR 0x0A]],
         res_throws = False\<rparr>\<rparr>"
proof -
  let ?rice = "\<lparr>item_productId = 0, item_name = ''Rice'', item_price = 90, item_quantity = 2\<rparr>"
  have guest: "co_items example_checkout = Some [?rice] \<and> [?rice] \<noteq> [] \<and>
      \<not> list_ex (\<lambda>u. user_email u = guest_email 1700000000000) (User registered_store)"
    by (simp add: example_checkout_def registered_store_def asha_def seeded_store_def
        guest_email_def)
  have user: "co_items example_checkout = Some [?rice] \<and> [?rice] \<noteq> [] \<and>
      authMiddleware verbose_libs (Some ''Bearer tok.user'') =
        Inr \<lparr>jwt_id = 3, jwt_role = ''user'', jwt_name = ''Asha''\<rparr> \<and>
      User_findById (jwt_id \<lparr>jwt_id = 3, jwt_role = ''user'', jwt_name = ''Asha''\<rparr>)
        registered_store = Some asha"
    by (simp add: example_checkout_def auth_user_verbose registered_asha)
  have still_open: "list_all (\<lambda>r. r \<noteq> CloseEvents 1700000000003.5) example_requests"
    by (simp add: example_requests_def)
  have vals: "co_total example_checkout = Some 180"
    "guest_name (co_deliveryAddress example_checkout) = ''A''" "user_name asha = ''Asha''"
    "JSON_stringify verbose_libs = example_stringify"
    by (simp_all add: example_checkout_def guest_name_def asha_def verbose_libs_def)
  note t = events_needs_no_token[where s = registered_store and L = verbose_libs
      and now = 1700000000000 and cid = "1700000000003.5" and b = example_checkout]
  note a = t[where auth = "Some ''Bearer tok.expired''" and rs = example_requests,
      THEN conjunct2, THEN conjunct2, THEN conjunct1, rule_format, OF still_open,
      unfolded example_requests_events]
  note b = t[where auth = None and rnd = "''k3x9''",
      THEN conjunct2, THEN conjunct2, THEN conjunct2, THEN conjunct1, rule_format, OF guest,
      unfolded vals example_stringify_guest]
  note c = t[where auth = "Some ''Bearer tok.expired''" and ?auth2.0 = "Some ''Bearer tok.user''",
      THEN conjunct2, THEN conjunct2, THEN conjunct2, THEN conjunct2, rule_format, OF user,
      unfolded vals example_stringify_user]
  from a b c show ?thesis
    by (simp only: append_Cons append_Nil simp_thms)
qed


end
